theory Spec2Isabelle
  imports Complex_Main "HOL-Library.Word"
begin

section \<open>Package metric: shared types\<close>

text \<open>
  \<^verbatim>\<open>type Group string\<close> with its three constants (package metric).
\<close>

datatype Group = ConsensusGroup | ExecutionGroup | InfrastructureGroup

text \<open>
  \<^verbatim>\<open>time.Duration\<close> is a count of nanoseconds; \<^verbatim>\<open>time.Second\<close> is \<open>10^9\<close> of them.
\<close>

type_synonym Duration = int

definition Second :: Duration where
  "Second = 1000000000"

text \<open>
  Modelled from the spec: the declarations of package \<^verbatim>\<open>internal/platform/metric\<close>
  (\<^verbatim>\<open>HealthStatus\<close>, \<^verbatim>\<open>SeverityLevel\<close>, the operators, \<^verbatim>\<open>HealthCondition\<close>, \<^verbatim>\<open>DataPoint\<close>
  and \<^verbatim>\<open>Base\<close>) are not among the source files; only their uses are. The shapes follow
  section 3 of the specification and the composite literals in \<^verbatim>\<open>LoadEnabledMetrics\<close> and in
  the collectors' constructors. Go lets \<^verbatim>\<open>HealthCondition\<close> and \<^verbatim>\<open>Base\<close> both have a field
  \<^verbatim>\<open>Name\<close>; here the field of \<^verbatim>\<open>Base\<close> is \<open>BaseName\<close>.
\<close>

datatype HealthStatus = Healthy | Unhealthy

datatype SeverityLevel = SeverityLow | SeverityMedium | SeverityHigh

datatype Operator =
    OperatorEqual
  | OperatorLessThan
  | OperatorLessThanOrEqual
  | OperatorGreaterThan
  | OperatorGreaterThanOrEqual

record 'v HealthCondition =
  Name :: string
  Threshold :: 'v
  Operator :: Operator
  Severity :: SeverityLevel

record 'v DataPoint =
  Timestamp :: nat
  Values :: "string \<rightharpoonup> 'v"

record 'v Base =
  HealthConditions :: "'v HealthCondition list"
  BaseName :: string
  DataPoints :: "'v DataPoint list"

text \<open>
  Modelled from the spec: \<^verbatim>\<open>Base.AddDataPoint\<close> is not among the source files. Section 4.1:
  it appends a DataPoint with the current time and never fails. The current time is the
  argument \<open>now\<close>. Every collector embeds \<^verbatim>\<open>metric.Base[T]\<close>, so the function works on every
  extension of the record.
\<close>

definition AddDataPoint ::
  "nat \<Rightarrow> (string \<rightharpoonup> 'v) \<Rightarrow> ('v, 'z) Base_scheme \<Rightarrow> ('v, 'z) Base_scheme" where
  "AddDataPoint now vals b =
     b\<lparr>DataPoints := DataPoints b @ [\<lparr>Timestamp = now, Values = vals\<rparr>]\<rparr>"

text \<open>
  Reading a Go map at a key it does not hold gives the value type's zero value.
\<close>

definition at_key :: "('k \<rightharpoonup> 'v::zero) \<Rightarrow> 'k \<Rightarrow> 'v" where
  "at_key m k = (case m k of None \<Rightarrow> 0 | Some v \<Rightarrow> v)"

section \<open>Percentile calculator\<close>

text \<open>
  Modelled from the spec: \<^verbatim>\<open>metric.CalculatePercentiles\<close> is not among the source files.
  Section 4.2: sort a copy of the values ascending; for percentile \<open>p\<close> the index is
  \<open>ceil(p/100 * n) - 1\<close>, clamped to \<open>[0, n-1]\<close>; empty input gives the type's zero value
  for every requested percentile; the result maps each requested percentile to its value.
  The ceiling of \<open>p/100 * n\<close> is computed in integers as \<open>(p * n + 99) div 100\<close>;
  lemma \<open>nearest_rank_ceiling\<close> below shows that this is the ceiling of the real quotient.
\<close>

definition nearest_rank :: "nat \<Rightarrow> nat \<Rightarrow> nat" where
  "nearest_rank p n =
     nat (max 0 (min (int n - 1) ((int p * int n + 99) div 100 - 1)))"

definition percentile :: "'a::{linorder,zero} list \<Rightarrow> nat \<Rightarrow> 'a" where
  "percentile vals p =
     (if vals = [] then 0 else sort vals ! nearest_rank p (length vals))"

definition CalculatePercentiles ::
  "'a::{linorder,zero} list \<Rightarrow> nat list \<Rightarrow> (nat \<rightharpoonup> 'a)" where
  "CalculatePercentiles vals percentiles =
     map_of (map (\<lambda>p. (p, percentile vals p)) percentiles)"

section \<open>Health evaluator\<close>

text \<open>
  Modelled from the spec: \<^verbatim>\<open>Base.EvaluateMetric\<close> and the evaluator it delegates to are
  not among the source files. Section 4.3: for each HealthCondition, fetch the relevant
  value (most recent DataPoint, or a metric-declared aggregate) and apply the operator
  against the threshold; conditions are evaluated in declared order and the first
  matching condition of a measurement wins; a measurement matching no condition has no
  severity; a condition whose measurement is absent from the store is "no data" and
  contributes no severity; the overall status is Unhealthy iff some measurement's matched
  severity is High. The function \<open>fetch\<close> is the relevant value of a measurement
  (\<open>None\<close> for no data); \<open>latest_value\<close> is the one read from the most recent DataPoint
  that holds the measurement.
\<close>

definition apply_operator :: "Operator \<Rightarrow> 'v::linorder \<Rightarrow> 'v \<Rightarrow> bool" where
  "apply_operator opr v t =
     (case opr of
        OperatorEqual \<Rightarrow> v = t
      | OperatorLessThan \<Rightarrow> v < t
      | OperatorLessThanOrEqual \<Rightarrow> v \<le> t
      | OperatorGreaterThan \<Rightarrow> t < v
      | OperatorGreaterThanOrEqual \<Rightarrow> t \<le> v)"

definition condition_matches ::
  "(string \<Rightarrow> 'v::linorder option) \<Rightarrow> 'v HealthCondition \<Rightarrow> bool" where
  "condition_matches fetch c =
     (case fetch (Name c) of
        None \<Rightarrow> False
      | Some v \<Rightarrow> apply_operator (Operator c) v (Threshold c))"

fun matched_severities ::
  "(string \<Rightarrow> 'v::linorder option) \<Rightarrow> 'v HealthCondition list \<Rightarrow>
   (string \<rightharpoonup> SeverityLevel) \<Rightarrow> (string \<rightharpoonup> SeverityLevel)" where
  "matched_severities fetch [] found = found"
| "matched_severities fetch (c # cs) found =
     matched_severities fetch cs
       (case found (Name c) of
          Some s \<Rightarrow> found
        | None \<Rightarrow> if condition_matches fetch c then found(Name c \<mapsto> Severity c) else found)"

definition Evaluate ::
  "(string \<Rightarrow> 'v::linorder option) \<Rightarrow> 'v HealthCondition list \<Rightarrow>
   HealthStatus \<times> (string \<rightharpoonup> SeverityLevel)" where
  "Evaluate fetch conds =
     (let found = matched_severities fetch conds Map.empty
      in (if list_ex (\<lambda>c. found (Name c) = Some SeverityHigh) conds
          then Unhealthy else Healthy,
          found))"

fun latest_value :: "'v DataPoint list \<Rightarrow> string \<Rightarrow> 'v option" where
  "latest_value [] name = None"
| "latest_value (d # ds) name =
     (case latest_value ds name of Some v \<Rightarrow> Some v | None \<Rightarrow> Values d name)"

definition EvaluateMetric ::
  "('v::linorder, 'z) Base_scheme \<Rightarrow> HealthStatus \<times> (string \<rightharpoonup> SeverityLevel)" where
  "EvaluateMetric b = Evaluate (latest_value (DataPoints b)) (HealthConditions b)"

section \<open>The collectors' environment\<close>

text \<open>
  A collector talks to the network and reads the clock. The environment is a record that
  is passed through every probe: \<open>issued\<close> is the list of the requests sent so far (each
  with the timeout the caller put on it, \<open>None\<close> when it put none), \<open>respond k\<close> is what
  the \<open>k\<close>-th request of the run comes back with, and \<open>now\<close> is the clock. A response
  says whether the call returned an error, the HTTP status code, what decoding the JSON
  body into the probe's response struct gives (\<open>None\<close> when \<^verbatim>\<open>Decode\<close> fails, otherwise the
  string field read), and how long the call took in nanoseconds. \<open>parses\<close> tells which
  addresses the library's \<^verbatim>\<open>url.Parse\<close> accepts.
\<close>

record request =
  req_url :: string
  req_timeout :: "Duration option"

record response =
  failed :: bool
  status :: nat
  decoded :: "string option"
  elapsed :: nat

record world =
  now :: nat
  issued :: "request list"
  respond :: "nat \<Rightarrow> response"
  parses :: "string \<Rightarrow> bool"

definition probe :: "request \<Rightarrow> world \<Rightarrow> response \<times> world" where
  "probe rq w =
     (let r = respond w (length (issued w))
      in (r, w\<lparr>now := now w + elapsed r, issued := issued w @ [rq]\<rparr>))"

text \<open>
  What stops a goroutine in the functions modelled here.
\<close>

datatype panic =
    NonPositiveTickerInterval
  | NilPointerDereference
  | SliceBoundsOutOfRange
  | IndexOutOfRange

text \<open>
  Every \<^verbatim>\<open>Measure\<close> has the same loop: a ticker of the collector's interval, and a
  \<^verbatim>\<open>select\<close> between the ticker's channel (run the tick's body) and \<^verbatim>\<open>ctx.Done()\<close>
  (return). The run of one \<^verbatim>\<open>Measure\<close> is given by the list of the ticks that \<^verbatim>\<open>select\<close>
  took before it took \<^verbatim>\<open>ctx.Done()\<close>, each with the time waited for it; the list is
  finite since the loop is observed up to its return.
\<close>

fun ticker_loop ::
  "(world \<Rightarrow> 'm \<Rightarrow> panic + world \<times> 'm) \<Rightarrow> nat list \<Rightarrow> world \<Rightarrow> 'm \<Rightarrow> panic + world \<times> 'm" where
  "ticker_loop body [] w m = Inr (w, m)"
| "ticker_loop body (wait # waits) w m =
     (case body (w\<lparr>now := now w + wait\<rparr>) m of
        Inl e \<Rightarrow> Inl e
      | Inr (w', m') \<Rightarrow> ticker_loop body waits w' m')"

text \<open>
  \<^verbatim>\<open>time.NewTicker\<close> panics when its interval is not positive.
\<close>

definition Measure_loop ::
  "Duration \<Rightarrow> (world \<Rightarrow> 'm \<Rightarrow> panic + world \<times> 'm) \<Rightarrow> nat list \<Rightarrow> world \<Rightarrow> 'm \<Rightarrow>
   panic + world \<times> 'm" where
  "Measure_loop interval body ticks w m =
     (if interval \<le> 0 then Inl NonPositiveTickerInterval
      else ticker_loop body ticks w m)"

text \<open>
  \<^verbatim>\<open>fmt.Sprintf("%d", n)\<close> for a number that is not negative.
\<close>

fun decimal :: "nat \<Rightarrow> string" where
  "decimal n =
     (if n < 10 then [''0123456789'' ! n]
      else decimal (n div 10) @ [''0123456789'' ! (n mod 10)])"

declare decimal.simps [simp del]

section \<open>Consensus client collector\<close>

definition VersionMeasurement :: string where
  "VersionMeasurement = ''Version''"

definition NodeHealthMeasurement :: string where
  "NodeHealthMeasurement = ''NodeHealth''"

definition SyncStatusMeasurement :: string where
  "SyncStatusMeasurement = ''SyncStatus''"

definition LatencyMeasurement :: string where
  "LatencyMeasurement = ''Latency''"

record ClientMetric = "string Base" +
  client_url :: string
  measureInterval :: Duration

definition NewClientMetric ::
  "string \<Rightarrow> string \<Rightarrow> string HealthCondition list \<Rightarrow> Duration \<Rightarrow> ClientMetric" where
  "NewClientMetric url name healthCondition interval =
     \<lparr>HealthConditions = healthCondition, BaseName = name, DataPoints = [],
      client_url = url, measureInterval = interval\<rparr>"

text \<open>
  The four probes use \<^verbatim>\<open>http.Get\<close>, the default client, which has no timeout, and none
  of them passes the context on.
\<close>

definition measureNodeHealth :: "world \<Rightarrow> ClientMetric \<Rightarrow> world \<times> ClientMetric" where
  "measureNodeHealth w c =
     (case probe \<lparr>req_url = client_url c @ ''/eth/v1/node/health'', req_timeout = None\<rparr> w of
        (res, w') \<Rightarrow>
          if failed res \<or> status res \<noteq> 200
          then (w', AddDataPoint (now w') [NodeHealthMeasurement \<mapsto> ''Unhealthy''] c)
          else (w', AddDataPoint (now w') [NodeHealthMeasurement \<mapsto> ''Healthy''] c))"

definition measureNodeVersion :: "world \<Rightarrow> ClientMetric \<Rightarrow> world \<times> ClientMetric" where
  "measureNodeVersion w c =
     (case probe \<lparr>req_url = client_url c @ ''/eth/v1/node/version'', req_timeout = None\<rparr> w of
        (res, w') \<Rightarrow>
          if failed res
          then (w', AddDataPoint (now w') [VersionMeasurement \<mapsto> ''''] c)
          else if status res \<noteq> 200
          then (w', AddDataPoint (now w') [VersionMeasurement \<mapsto> ''''] c)
          else (case decoded res of
                  None \<Rightarrow> (w', AddDataPoint (now w') [VersionMeasurement \<mapsto> ''''] c)
                | Some version \<Rightarrow>
                    (w', AddDataPoint (now w') [VersionMeasurement \<mapsto> version] c)))"

definition measureSyncStatus :: "world \<Rightarrow> ClientMetric \<Rightarrow> world \<times> ClientMetric" where
  "measureSyncStatus w c =
     (case probe \<lparr>req_url = client_url c @ ''/eth/v1/node/syncing'', req_timeout = None\<rparr> w of
        (res, w') \<Rightarrow>
          if failed res \<or> status res \<noteq> 200
          then (w', AddDataPoint (now w') [SyncStatusMeasurement \<mapsto> ''Not Synced''] c)
          else (w', AddDataPoint (now w') [SyncStatusMeasurement \<mapsto> ''Synced''] c))"

definition measureLatency :: "world \<Rightarrow> ClientMetric \<Rightarrow> world \<times> ClientMetric" where
  "measureLatency w c =
     (case probe \<lparr>req_url = client_url c @ ''/eth/v1/node/health'', req_timeout = None\<rparr> w of
        (res, w') \<Rightarrow>
          if failed res
          then (w', AddDataPoint (now w') [LatencyMeasurement \<mapsto> ''Error''] c)
          else (let latency = elapsed res div 1000000
                in (w', AddDataPoint (now w')
                          [LatencyMeasurement \<mapsto> decimal latency @ ''ms''] c)))"

text \<open>
  The body of the ticker branch of \<^verbatim>\<open>ClientMetric.Measure\<close>, and the loop.
\<close>

definition ClientMetric_tick :: "world \<Rightarrow> ClientMetric \<Rightarrow> world \<times> ClientMetric" where
  "ClientMetric_tick w c =
     (case measureNodeHealth w c of (w1, c1) \<Rightarrow>
      case measureNodeVersion w1 c1 of (w2, c2) \<Rightarrow>
      case measureSyncStatus w2 c2 of (w3, c3) \<Rightarrow>
      measureLatency w3 c3)"

definition ClientMetric_Measure ::
  "nat list \<Rightarrow> world \<Rightarrow> ClientMetric \<Rightarrow> panic + world \<times> ClientMetric" where
  "ClientMetric_Measure ticks w c =
     Measure_loop (measureInterval c) (\<lambda>w c. Inr (ClientMetric_tick w c)) ticks w c"

section \<open>Latency collectors\<close>

definition DurationMinMeasurement :: string where
  "DurationMinMeasurement = ''DurationMin''"

definition DurationP10Measurement :: string where
  "DurationP10Measurement = ''DurationP10''"

definition DurationP50Measurement :: string where
  "DurationP50Measurement = ''DurationP50''"

definition DurationP90Measurement :: string where
  "DurationP90Measurement = ''DurationP90''"

definition DurationMaxMeasurement :: string where
  "DurationMaxMeasurement = ''DurationMax''"

text \<open>
  Packages consensus and execution each declare a \<^verbatim>\<open>LatencyMetric\<close> with the same fields
  (the address is \<^verbatim>\<open>url\<close> in one and \<^verbatim>\<open>host\<close> in the other), the same constructor and the
  same \<^verbatim>\<open>writeMetric\<close>; one record stands for both. They differ in the probe
  (\<^verbatim>\<open>http.Client.Get\<close> against \<^verbatim>\<open>net.DialTimeout\<close>) and in \<^verbatim>\<open>AggregateResults\<close>.
\<close>

record LatencyMetric = "Duration Base" +
  latency_url :: string
  latency_interval :: Duration
  latency_timeout :: Duration
  durations :: "Duration list"

text \<open>
  \<^verbatim>\<open>time.Duration(float64(interval) * 0.75)\<close>. The conversion of an \<^verbatim>\<open>int64\<close> to
  \<^verbatim>\<open>float64\<close> and the product both round to the nearest value with 53 significant bits,
  ties to the even one; \<open>0.75\<close> is a \<^verbatim>\<open>float64\<close> itself; the conversion back truncates
  towards zero. \<open>round_half_even k m\<close> rounds \<open>m\<close> to a multiple of \<open>2^k\<close> that way, and
  \<open>round_float64 m\<close> is the \<^verbatim>\<open>float64\<close> nearest to the natural number \<open>m\<close>. The exact
  product of a \<^verbatim>\<open>float64\<close> \<open>x\<close> and \<open>0.75\<close> is \<open>3 * x / 4\<close>; rounding it to 53 significant
  bits is rounding \<open>3 * x\<close> and dividing by four, since dividing by a power of two keeps
  the significant bits. Rounding and truncation are symmetric about zero.
\<close>

fun bit_length :: "nat \<Rightarrow> nat" where
  "bit_length n = (if n = 0 then 0 else Suc (bit_length (n div 2)))"

declare bit_length.simps [simp del]

definition round_half_even :: "nat \<Rightarrow> nat \<Rightarrow> nat" where
  "round_half_even k m =
     (let u = 2 ^ k; lo = m div u; r = m mod u
      in if 2 * r < u then lo * u
         else if u < 2 * r then (lo + 1) * u
         else if even lo then lo * u
         else (lo + 1) * u)"

definition round_float64 :: "nat \<Rightarrow> nat" where
  "round_float64 m =
     (if m < 2 ^ 53 then m else round_half_even (bit_length m - 53) m)"

definition three_quarters :: "Duration \<Rightarrow> Duration" where
  "three_quarters d =
     sgn d * int (round_float64 (3 * round_float64 (nat \<bar>d\<bar>)) div 4)"

definition NewLatencyMetric ::
  "string \<Rightarrow> string \<Rightarrow> Duration \<Rightarrow> Duration HealthCondition list \<Rightarrow> LatencyMetric" where
  "NewLatencyMetric url name interval healthCondition =
     \<lparr>HealthConditions = healthCondition, BaseName = name, DataPoints = [],
      latency_url = url, latency_interval = interval,
      latency_timeout = three_quarters interval, durations = []\<rparr>"

definition LatencyMetric_writeMetric :: "nat \<Rightarrow> Duration \<Rightarrow> LatencyMetric \<Rightarrow> LatencyMetric" where
  "LatencyMetric_writeMetric time latency l =
     (let percentiles = CalculatePercentiles (durations l) [0, 10, 50, 90, 100]
      in AddDataPoint time
           [DurationMinMeasurement \<mapsto> at_key percentiles 0,
            DurationP10Measurement \<mapsto> at_key percentiles 10,
            DurationP50Measurement \<mapsto> at_key percentiles 50,
            DurationP90Measurement \<mapsto> at_key percentiles 90,
            DurationMaxMeasurement \<mapsto> at_key percentiles 100] l)"

text \<open>
  \<^verbatim>\<open>http.Client\<close> applies its \<^verbatim>\<open>Timeout\<close> only when it is positive; a \<^verbatim>\<open>net.Dialer\<close>
  applies every timeout but zero.
\<close>

definition consensus_LatencyMetric_measure ::
  "world \<Rightarrow> LatencyMetric \<Rightarrow> world \<times> LatencyMetric" where
  "consensus_LatencyMetric_measure w l =
     (case probe \<lparr>req_url = latency_url l,
                  req_timeout = (if latency_timeout l \<le> 0 then None
                                 else Some (latency_timeout l))\<rparr> w of
        (res, w') \<Rightarrow>
          if failed res then (w', l)
          else (let latency = int (elapsed res);
                    l' = l\<lparr>durations := durations l @ [latency]\<rparr>
                in (w', LatencyMetric_writeMetric (now w') latency l')))"

definition execution_LatencyMetric_measure ::
  "world \<Rightarrow> LatencyMetric \<Rightarrow> world \<times> LatencyMetric" where
  "execution_LatencyMetric_measure w l =
     (case probe \<lparr>req_url = latency_url l,
                  req_timeout = (if latency_timeout l = 0 then None
                                 else Some (latency_timeout l))\<rparr> w of
        (res, w') \<Rightarrow>
          if failed res then (w', l)
          else (let latency = int (elapsed res);
                    l' = l\<lparr>durations := durations l @ [latency]\<rparr>
                in (w', LatencyMetric_writeMetric (now w') latency l')))"

definition consensus_LatencyMetric_Measure ::
  "nat list \<Rightarrow> world \<Rightarrow> LatencyMetric \<Rightarrow> panic + world \<times> LatencyMetric" where
  "consensus_LatencyMetric_Measure ticks w l =
     Measure_loop (latency_interval l)
       (\<lambda>w l. Inr (consensus_LatencyMetric_measure w l)) ticks w l"

definition execution_LatencyMetric_Measure ::
  "nat list \<Rightarrow> world \<Rightarrow> LatencyMetric \<Rightarrow> panic + world \<times> LatencyMetric" where
  "execution_LatencyMetric_Measure ticks w l =
     Measure_loop (latency_interval l)
       (\<lambda>w l. Inr (execution_LatencyMetric_measure w l)) ticks w l"

text \<open>
  \<^verbatim>\<open>metric.FormatPercentiles\<close> is not among the source files; the functions that call it
  take it as the argument \<open>FormatPercentiles\<close>.

  \<^verbatim>\<open>consensus.LatencyMetric.AggregateResults\<close> reads the last DataPoint under the guard
  \<^verbatim>\<open>len(l.DataPoints) > 0\<close>; \<^verbatim>\<open>execution.LatencyMetric.AggregateResults\<close> indexes
  \<^verbatim>\<open>l.DataPoints[len(l.DataPoints)-1]\<close> with no guard, which panics on an empty slice.
\<close>

definition consensus_LatencyMetric_AggregateResults ::
  "(Duration \<Rightarrow> Duration \<Rightarrow> Duration \<Rightarrow> Duration \<Rightarrow> Duration \<Rightarrow> string) \<Rightarrow>
   LatencyMetric \<Rightarrow> string" where
  "consensus_LatencyMetric_AggregateResults FormatPercentiles l =
     (if 0 < length (DataPoints l)
      then (let point = DataPoints l ! (length (DataPoints l) - 1)
            in FormatPercentiles
                 (at_key (Values point) DurationMinMeasurement)
                 (at_key (Values point) DurationP10Measurement)
                 (at_key (Values point) DurationP50Measurement)
                 (at_key (Values point) DurationP90Measurement)
                 (at_key (Values point) DurationMaxMeasurement))
      else FormatPercentiles 0 0 0 0 0)"

definition execution_LatencyMetric_AggregateResults ::
  "(Duration \<Rightarrow> Duration \<Rightarrow> Duration \<Rightarrow> Duration \<Rightarrow> Duration \<Rightarrow> string) \<Rightarrow>
   LatencyMetric \<Rightarrow> panic + string" where
  "execution_LatencyMetric_AggregateResults FormatPercentiles l =
     (if length (DataPoints l) = 0 then Inl IndexOutOfRange
      else (let point = DataPoints l ! (length (DataPoints l) - 1)
            in Inr (FormatPercentiles
                      (at_key (Values point) DurationMinMeasurement)
                      (at_key (Values point) DurationP10Measurement)
                      (at_key (Values point) DurationP50Measurement)
                      (at_key (Values point) DurationP90Measurement)
                      (at_key (Values point) DurationMaxMeasurement))))"

section \<open>Execution peer collector\<close>

definition execution_PeerCountMeasurement :: string where
  "execution_PeerCountMeasurement = ''Count''"

text \<open>
  A Go \<^verbatim>\<open>error\<close> is represented by its message. \<^verbatim>\<open>errors.Join\<close> gives an error whose
  message is the messages joined by a newline.
\<close>

type_synonym error = string

definition errors_Join :: "error \<Rightarrow> error \<Rightarrow> error" where
  "errors_Join a b = a @ [CHR 0x0A] @ b"

definition measuringErr :: error where
  "measuringErr = ''UNABLE_TO_MEASURE''"

record execution_PeerMetric = "32 word Base" +
  peer_url :: string
  peer_interval :: Duration
  measuringErrors :: "string \<rightharpoonup> error"

definition execution_NewPeerMetric ::
  "string \<Rightarrow> string \<Rightarrow> Duration \<Rightarrow> 32 word HealthCondition list \<Rightarrow> execution_PeerMetric" where
  "execution_NewPeerMetric url name interval healthCondition =
     \<lparr>HealthConditions = healthCondition, BaseName = name, DataPoints = [],
      peer_url = url, peer_interval = interval, measuringErrors = Map.empty\<rparr>"

text \<open>
  \<^verbatim>\<open>strconv.ParseInt(s, 16, 64)\<close>: an optional sign, then at least one hexadecimal digit
  and nothing else; the value has to fit an \<^verbatim>\<open>int64\<close>. \<open>None\<close> stands for every error
  (the caller treats them alike).
\<close>

definition hex_digit :: "char \<Rightarrow> nat option" where
  "hex_digit c =
     (let n = (of_char c :: nat)
      in if 48 \<le> n \<and> n \<le> 57 then Some (n - 48)
         else if 97 \<le> n \<and> n \<le> 102 then Some (n - 87)
         else if 65 \<le> n \<and> n \<le> 70 then Some (n - 55)
         else None)"

fun hex_value :: "nat \<Rightarrow> string \<Rightarrow> nat option" where
  "hex_value acc [] = Some acc"
| "hex_value acc (c # cs) =
     (case hex_digit c of
        None \<Rightarrow> None
      | Some d \<Rightarrow> hex_value (16 * acc + d) cs)"

definition ParseInt_16_64 :: "string \<Rightarrow> int option" where
  "ParseInt_16_64 s =
     (case s of
        [] \<Rightarrow> None
      | c # cs \<Rightarrow>
          (let neg = (c = CHR ''-'');
               digits = (if c = CHR ''+'' \<or> c = CHR ''-'' then cs else s)
           in if digits = [] then None
              else (case hex_value 0 digits of
                      None \<Rightarrow> None
                    | Some un \<Rightarrow>
                        if \<not> neg \<and> 2 ^ 63 \<le> un then None
                        else if neg \<and> 2 ^ 63 < un then None
                        else Some (if neg then - int un else int un))))"

text \<open>
  \<^verbatim>\<open>writeMetric(value int64)\<close> stores \<^verbatim>\<open>uint32(value)\<close>, the value modulo \<open>2^32\<close>.
\<close>

definition execution_PeerMetric_writeMetric ::
  "nat \<Rightarrow> int \<Rightarrow> execution_PeerMetric \<Rightarrow> execution_PeerMetric" where
  "execution_PeerMetric_writeMetric time v p =
     AddDataPoint time [execution_PeerCountMeasurement \<mapsto> (word_of_int v :: 32 word)] p"

text \<open>
  \<^verbatim>\<open>execution.PeerMetric.measure\<close>. Marshalling the constant request struct cannot fail.
  \<^verbatim>\<open>req.Header.Set\<close> is called before the error of \<^verbatim>\<open>http.NewRequestWithContext\<close> is
  looked at, and the request is nil when the address does not parse. The request carries
  a context with a timeout of five seconds. \<^verbatim>\<open>peerCountHex[2:]\<close> panics on a result of
  one character.
\<close>

definition execution_PeerMetric_measure ::
  "world \<Rightarrow> execution_PeerMetric \<Rightarrow> panic + world \<times> execution_PeerMetric" where
  "execution_PeerMetric_measure w p =
     (if \<not> parses w (peer_url p) then Inl NilPointerDereference
      else
        (case probe \<lparr>req_url = peer_url p, req_timeout = Some (5 * Second)\<rparr> w of
           (res, w') \<Rightarrow>
             if failed res
             then Inr (w', execution_PeerMetric_writeMetric (now w') 0 p)
             else if status res \<noteq> 200
             then Inr (w', execution_PeerMetric_writeMetric (now w') 0 p)
             else (case decoded res of
                     None \<Rightarrow> Inr (w', execution_PeerMetric_writeMetric (now w') 0 p)
                   | Some peerCountHex \<Rightarrow>
                       if peerCountHex = ''''
                       then Inr (w',
                              (execution_PeerMetric_writeMetric (now w') 0 p)
                                \<lparr>measuringErrors :=
                                   (measuringErrors p)(execution_PeerCountMeasurement \<mapsto>
                                     errors_Join measuringErr
                                       ''peer count RPC response was empty. Most likely net_peerCount RPC method is not supported'')\<rparr>)
                       else if length peerCountHex < 2 then Inl SliceBoundsOutOfRange
                       else (case ParseInt_16_64 (drop 2 peerCountHex) of
                               None \<Rightarrow>
                                 Inr (w', execution_PeerMetric_writeMetric (now w') 0 p)
                             | Some peerCount \<Rightarrow>
                                 Inr (w', execution_PeerMetric_writeMetric (now w')
                                            peerCount p)))))"

definition execution_PeerMetric_Measure ::
  "nat list \<Rightarrow> world \<Rightarrow> execution_PeerMetric \<Rightarrow> panic + world \<times> execution_PeerMetric" where
  "execution_PeerMetric_Measure ticks w p =
     Measure_loop (peer_interval p) execution_PeerMetric_measure ticks w p"

text \<open>
  \<^verbatim>\<open>for ... range\<close> over a Go map visits the entries in an order the runtime chooses.
  The order is the argument \<open>visit\<close>, a list of keys; \<open>first_visited\<close> is the entry
  the loop sees first. \<^verbatim>\<open>AggregateResults\<close> returns from inside the first iteration.
\<close>

fun first_visited :: "'k list \<Rightarrow> ('k \<rightharpoonup> 'v) \<Rightarrow> ('k \<times> 'v) option" where
  "first_visited [] m = None"
| "first_visited (k # ks) m =
     (case m k of Some v \<Rightarrow> Some (k, v) | None \<Rightarrow> first_visited ks m)"

definition execution_PeerMetric_AggregateResults ::
  "(32 word \<Rightarrow> 32 word \<Rightarrow> 32 word \<Rightarrow> 32 word \<Rightarrow> 32 word \<Rightarrow> string) \<Rightarrow> string list \<Rightarrow>
   execution_PeerMetric \<Rightarrow> string" where
  "execution_PeerMetric_AggregateResults FormatPercentiles visit p =
     (case first_visited visit (measuringErrors p) of
        Some (measurementName, err) \<Rightarrow> err
      | None \<Rightarrow>
          (let vals = map (\<lambda>point. at_key (Values point) execution_PeerCountMeasurement)
                        (DataPoints p);
               percentiles = CalculatePercentiles vals [0, 10, 50, 90, 100]
           in FormatPercentiles
                (at_key percentiles 0)
                (at_key percentiles 10)
                (at_key percentiles 50)
                (at_key percentiles 90)
                (at_key percentiles 100)))"

section \<open>Consensus peer collector\<close>

definition consensus_PeerCountMeasurement :: string where
  "consensus_PeerCountMeasurement = ''PeerCount''"

record consensus_PeerMetric = "32 word Base" +
  consensus_peer_url :: string
  consensus_peer_interval :: Duration

definition consensus_NewPeerMetric ::
  "string \<Rightarrow> string \<Rightarrow> Duration \<Rightarrow> 32 word HealthCondition list \<Rightarrow> consensus_PeerMetric" where
  "consensus_NewPeerMetric url name interval healthCondition =
     \<lparr>HealthConditions = healthCondition, BaseName = name, DataPoints = [],
      consensus_peer_url = url, consensus_peer_interval = interval\<rparr>"

definition consensus_PeerMetric_AggregateResults ::
  "(32 word \<Rightarrow> 32 word \<Rightarrow> 32 word \<Rightarrow> 32 word \<Rightarrow> 32 word \<Rightarrow> string) \<Rightarrow>
   consensus_PeerMetric \<Rightarrow> string" where
  "consensus_PeerMetric_AggregateResults FormatPercentiles p =
     (let vals = map (\<lambda>point. at_key (Values point) consensus_PeerCountMeasurement)
                   (DataPoints p);
          percentiles = CalculatePercentiles vals [0, 10, 50, 90, 100]
      in FormatPercentiles
           (at_key percentiles 0)
           (at_key percentiles 10)
           (at_key percentiles 50)
           (at_key percentiles 90)
           (at_key percentiles 100))"

section \<open>Benchmark service\<close>

text \<open>
  The interface \<^verbatim>\<open>metricService\<close> as \<^verbatim>\<open>Service.Start\<close> uses it after the run: what
  \<^verbatim>\<open>GetName\<close>, \<^verbatim>\<open>AggregateResults\<close> and \<^verbatim>\<open>EvaluateMetric\<close> of the collector return when
  called (\<^verbatim>\<open>AggregateResults\<close> may panic instead of returning).
\<close>

record metricService =
  GetName :: string
  AggregateResults :: "panic + string"
  EvaluateMetricResult :: "HealthStatus \<times> (string \<rightharpoonup> SeverityLevel)"

text \<open>
  Modelled from the spec: package \<^verbatim>\<open>report\<close> (\<^verbatim>\<open>Record\<close>, \<^verbatim>\<open>AddRecord\<close>, \<^verbatim>\<open>Render\<close>) is not
  among the source files. \<^verbatim>\<open>Record\<close> has the fields of the composite literal in \<^verbatim>\<open>Start\<close>
  (its \<^verbatim>\<open>Severity\<close> is \<open>RecordSeverity\<close> here); the sink accumulates the Records added
  and is rendered (sections 2 and 6). \<open>renders\<close> counts the calls of \<^verbatim>\<open>Render\<close>.
\<close>

record Record =
  GroupName :: Group
  MetricName :: string
  Value :: string
  Health :: HealthStatus
  RecordSeverity :: "string \<rightharpoonup> SeverityLevel"

record reportService =
  added :: "Record list"
  renders :: nat

definition AddRecord :: "Record \<Rightarrow> reportService \<Rightarrow> reportService" where
  "AddRecord r report = report\<lparr>added := added report @ [r]\<rparr>"

definition Render :: "reportService \<Rightarrow> reportService" where
  "Render report = report\<lparr>renders := renders report + 1\<rparr>"

text \<open>
  The part of \<^verbatim>\<open>Service.Start\<close> after \<^verbatim>\<open><-ctx.Done()\<close>: the loop over the groups and their
  metrics that builds and adds the Records, and the call of \<^verbatim>\<open>Render\<close>. \<^verbatim>\<open>s.metrics\<close> is a
  Go map from group to the slice of its metrics; the list of pairs is the map in the
  order in which \<^verbatim>\<open>range\<close> visits it. \<^verbatim>\<open>Start\<close> has no \<^verbatim>\<open>recover\<close>: a panic in a method
  of a metric ends it there.
\<close>

fun add_group_records ::
  "Group \<Rightarrow> metricService list \<Rightarrow> reportService \<Rightarrow> panic + reportService" where
  "add_group_records metricGroup [] report = Inr report"
| "add_group_records metricGroup (m # groupMetrics) report =
     (case EvaluateMetricResult m of
        (health, severity) \<Rightarrow>
          (case AggregateResults m of
             Inl e \<Rightarrow> Inl e
           | Inr v \<Rightarrow>
               add_group_records metricGroup groupMetrics
                 (AddRecord \<lparr>GroupName = metricGroup, MetricName = GetName m, Value = v,
                              Health = health, RecordSeverity = severity\<rparr> report)))"

fun add_records ::
  "(Group \<times> metricService list) list \<Rightarrow> reportService \<Rightarrow> panic + reportService" where
  "add_records [] report = Inr report"
| "add_records ((metricGroup, groupMetrics) # metrics) report =
     (case add_group_records metricGroup groupMetrics report of
        Inl e \<Rightarrow> Inl e
      | Inr report' \<Rightarrow> add_records metrics report')"

definition Start_report ::
  "(Group \<times> metricService list) list \<Rightarrow> reportService \<Rightarrow> panic + reportService" where
  "Start_report metrics report =
     (case add_records metrics report of
        Inl e \<Rightarrow> Inl e
      | Inr report' \<Rightarrow> Inr (Render report'))"

text \<open>
  The collectors as \<^verbatim>\<open>metricService\<close> values. \<^verbatim>\<open>GetName\<close> and \<^verbatim>\<open>EvaluateMetric\<close> are
  methods of the embedded \<^verbatim>\<open>Base\<close>.
\<close>

definition consensus_LatencyMetric_service ::
  "(Duration \<Rightarrow> Duration \<Rightarrow> Duration \<Rightarrow> Duration \<Rightarrow> Duration \<Rightarrow> string) \<Rightarrow>
   LatencyMetric \<Rightarrow> metricService" where
  "consensus_LatencyMetric_service FormatPercentiles l =
     \<lparr>GetName = BaseName l,
      AggregateResults = Inr (consensus_LatencyMetric_AggregateResults FormatPercentiles l),
      EvaluateMetricResult = EvaluateMetric l\<rparr>"

definition execution_LatencyMetric_service ::
  "(Duration \<Rightarrow> Duration \<Rightarrow> Duration \<Rightarrow> Duration \<Rightarrow> Duration \<Rightarrow> string) \<Rightarrow>
   LatencyMetric \<Rightarrow> metricService" where
  "execution_LatencyMetric_service FormatPercentiles l =
     \<lparr>GetName = BaseName l,
      AggregateResults = execution_LatencyMetric_AggregateResults FormatPercentiles l,
      EvaluateMetricResult = EvaluateMetric l\<rparr>"

definition execution_PeerMetric_service ::
  "(32 word \<Rightarrow> 32 word \<Rightarrow> 32 word \<Rightarrow> 32 word \<Rightarrow> 32 word \<Rightarrow> string) \<Rightarrow> string list \<Rightarrow>
   execution_PeerMetric \<Rightarrow> metricService" where
  "execution_PeerMetric_service FormatPercentiles visit p =
     \<lparr>GetName = BaseName p,
      AggregateResults = Inr (execution_PeerMetric_AggregateResults FormatPercentiles visit p),
      EvaluateMetricResult = EvaluateMetric p\<rparr>"

definition consensus_PeerMetric_service ::
  "(32 word \<Rightarrow> 32 word \<Rightarrow> 32 word \<Rightarrow> 32 word \<Rightarrow> 32 word \<Rightarrow> string) \<Rightarrow>
   consensus_PeerMetric \<Rightarrow> metricService" where
  "consensus_PeerMetric_service FormatPercentiles p =
     \<lparr>GetName = BaseName p,
      AggregateResults = Inr (consensus_PeerMetric_AggregateResults FormatPercentiles p),
      EvaluateMetricResult = EvaluateMetric p\<rparr>"

text \<open>
  The collectors as \<^verbatim>\<open>LoadEnabledMetrics\<close> constructs them for the execution client and
  the consensus client's latency and peers.
\<close>

definition execution_peers_conditions :: "32 word HealthCondition list" where
  "execution_peers_conditions =
     [\<lparr>Name = execution_PeerCountMeasurement, Threshold = 5,
       Operator = OperatorLessThanOrEqual, Severity = SeverityHigh\<rparr>,
      \<lparr>Name = execution_PeerCountMeasurement, Threshold = 20,
       Operator = OperatorLessThanOrEqual, Severity = SeverityMedium\<rparr>,
      \<lparr>Name = execution_PeerCountMeasurement, Threshold = 40,
       Operator = OperatorLessThanOrEqual, Severity = SeverityLow\<rparr>]"

definition enabled_execution_PeerMetric :: "string \<Rightarrow> execution_PeerMetric" where
  "enabled_execution_PeerMetric address =
     execution_NewPeerMetric address ''Peers'' (Second * 10) execution_peers_conditions"

definition enabled_LatencyMetric :: "string \<Rightarrow> LatencyMetric" where
  "enabled_LatencyMetric host =
     NewLatencyMetric host ''Latency'' (Second * 3)
       [\<lparr>Name = DurationP90Measurement, Threshold = Second,
         Operator = OperatorGreaterThanOrEqual, Severity = SeverityHigh\<rparr>]"

definition enabled_consensus_PeerMetric :: "string \<Rightarrow> consensus_PeerMetric" where
  "enabled_consensus_PeerMetric address =
     consensus_NewPeerMetric address ''Peers'' (Second * 10)
       [\<lparr>Name = consensus_PeerCountMeasurement, Threshold = 5,
         Operator = OperatorLessThanOrEqual, Severity = SeverityHigh\<rparr>,
        \<lparr>Name = consensus_PeerCountMeasurement, Threshold = 20,
         Operator = OperatorLessThanOrEqual, Severity = SeverityMedium\<rparr>,
        \<lparr>Name = consensus_PeerCountMeasurement, Threshold = 40,
         Operator = OperatorLessThanOrEqual, Severity = SeverityLow\<rparr>]"

section \<open>The run of \<^verbatim>\<open>Service.Start\<close> and its collectors\<close>

text \<open>
  \<^verbatim>\<open>Start\<close> launches \<^verbatim>\<open>go metric.Measure(ctx)\<close> for every metric, blocks on
  \<^verbatim>\<open><-ctx.Done()\<close>, then calls \<^verbatim>\<open>EvaluateMetric\<close> and \<^verbatim>\<open>AggregateResults\<close> of every metric
  and finally \<^verbatim>\<open>Render\<close>. It holds no wait group, channel or other handle on the goroutines
  it launched. The goroutines and \<^verbatim>\<open>Start\<close> run interleaved; an interleaving is a list of
  actions, each one step of \<^verbatim>\<open>Start\<close>, of one collector's \<^verbatim>\<open>Measure\<close>, or the cancellation of
  the context (by its deadline or by the shutdown handler).

  A collector is \<open>NotLaunched\<close>, or blocked in the \<^verbatim>\<open>select\<close> of its loop (\<open>Selecting\<close>), or
  inside the ticker branch with its probe and store write under way (\<open>InTick\<close>), or its
  \<^verbatim>\<open>Measure\<close> has \<open>Returned\<close>. \<^verbatim>\<open>select\<close> may take the ticker branch also when the context
  is already cancelled, since it chooses among the ready branches at random. The two
  \<^verbatim>\<open>range\<close> loops of \<^verbatim>\<open>Start\<close> visit the metrics in the orders \<open>to_launch\<close> and
  \<open>to_evaluate\<close>. Every step is recorded in \<open>trace\<close>.
\<close>

datatype phase = NotLaunched | Selecting | InTick | Returned

datatype event =
    Launched nat
  | Cancelled
  | TickTaken nat
  | StoreWritten nat
  | MeasureReturned nat
  | Evaluated nat
  | Aggregated nat
  | Rendered

datatype action =
    StartStep
  | CancelContext
  | TakeTick nat
  | FinishTick nat
  | TakeDone nat

record run_state =
  phases :: "nat \<Rightarrow> phase"
  ctx_done :: bool
  to_launch :: "nat list"
  past_done :: bool
  to_evaluate :: "nat list"
  render_called :: bool
  trace :: "event list"

definition init_state :: "nat list \<Rightarrow> nat list \<Rightarrow> run_state" where
  "init_state launch_order evaluate_order =
     \<lparr>phases = (\<lambda>i. NotLaunched), ctx_done = False, to_launch = launch_order,
      past_done = False, to_evaluate = evaluate_order, render_called = False, trace = []\<rparr>"

text \<open>
  The next statement of \<^verbatim>\<open>Start\<close>: launch the next metric; when all are launched, pass
  \<^verbatim>\<open><-ctx.Done()\<close> once the context is cancelled; then evaluate and aggregate the next
  metric; when none is left, render. \<open>None\<close> means that \<^verbatim>\<open>Start\<close> cannot move (it is
  blocked, or has returned).
\<close>

definition start_step :: "run_state \<Rightarrow> run_state option" where
  "start_step s =
     (case to_launch s of
        i # rest \<Rightarrow>
          Some (s\<lparr>phases := (phases s)(i := Selecting), to_launch := rest,
                  trace := trace s @ [Launched i]\<rparr>)
      | [] \<Rightarrow>
          if \<not> past_done s
          then (if ctx_done s then Some (s\<lparr>past_done := True\<rparr>) else None)
          else (case to_evaluate s of
                  i # rest \<Rightarrow>
                    Some (s\<lparr>to_evaluate := rest,
                            trace := trace s @ [Evaluated i, Aggregated i]\<rparr>)
                | [] \<Rightarrow>
                    if render_called s then None
                    else Some (s\<lparr>render_called := True, trace := trace s @ [Rendered]\<rparr>)))"

fun step :: "action \<Rightarrow> run_state \<Rightarrow> run_state option" where
  "step StartStep s = start_step s"
| "step CancelContext s =
     (if ctx_done s then None
      else Some (s\<lparr>ctx_done := True, trace := trace s @ [Cancelled]\<rparr>))"
| "step (TakeTick i) s =
     (if phases s i = Selecting
      then Some (s\<lparr>phases := (phases s)(i := InTick), trace := trace s @ [TickTaken i]\<rparr>)
      else None)"
| "step (FinishTick i) s =
     (if phases s i = InTick
      then Some (s\<lparr>phases := (phases s)(i := Selecting), trace := trace s @ [StoreWritten i]\<rparr>)
      else None)"
| "step (TakeDone i) s =
     (if phases s i = Selecting \<and> ctx_done s
      then Some (s\<lparr>phases := (phases s)(i := Returned),
                   trace := trace s @ [MeasureReturned i]\<rparr>)
      else None)"

fun run :: "action list \<Rightarrow> run_state \<Rightarrow> run_state option" where
  "run [] s = Some s"
| "run (a # as) s = (case step a s of None \<Rightarrow> None | Some s' \<Rightarrow> run as s')"

fun reads_store :: "event \<Rightarrow> bool" where
  "reads_store (Evaluated i) = True"
| "reads_store (Aggregated i) = True"
| "reads_store e = False"

definition before_reads :: "event list \<Rightarrow> event list" where
  "before_reads tr = takeWhile (\<lambda>e. \<not> reads_store e) tr"

text \<open>
  What holds in every state of a run: \<^verbatim>\<open>Start\<close> is past \<^verbatim>\<open><-ctx.Done()\<close> only when the
  context is cancelled and every metric is launched, and the trace records it.
\<close>

definition start_inv :: "nat list \<Rightarrow> run_state \<Rightarrow> bool" where
  "start_inv launch_order s \<longleftrightarrow>
     (past_done s \<longrightarrow> ctx_done s \<and> to_launch s = []) \<and>
     (ctx_done s \<longrightarrow> Cancelled \<in> set (trace s)) \<and>
     (\<forall>j \<in> set launch_order. j \<notin> set (to_launch s) \<longrightarrow> Launched j \<in> set (trace s)) \<and>
     (list_ex reads_store (trace s) \<longrightarrow>
        Cancelled \<in> set (before_reads (trace s)) \<and>
        (\<forall>j \<in> set launch_order. Launched j \<in> set (before_reads (trace s))))"

section \<open>Example environments\<close>

text \<open>
  Environments for the concrete runs below: a clock at zero, no request sent yet, every
  address accepted by \<^verbatim>\<open>url.Parse\<close>; the \<open>k\<close>-th request gets the \<open>k\<close>-th response of
  the list and the default response after the list's end.
\<close>

definition replies :: "response list \<Rightarrow> response \<Rightarrow> nat \<Rightarrow> response" where
  "replies rs d k = (if k < length rs then rs ! k else d)"

definition accepts_every_url :: "string \<Rightarrow> bool" where
  "accepts_every_url u = True"

definition fresh_world :: "response list \<Rightarrow> response \<Rightarrow> world" where
  "fresh_world rs d =
     \<lparr>now = 0, issued = [], respond = replies rs d, parses = accepts_every_url\<rparr>"

definition refused :: response where
  "refused = \<lparr>failed = True, status = 0, decoded = None, elapsed = 1000000\<rparr>"

definition answered :: "string \<Rightarrow> nat \<Rightarrow> response" where
  "answered body ns = \<lparr>failed = False, status = 200, decoded = Some body, elapsed = ns\<rparr>"

section \<open>Notions for stating the properties\<close>

text \<open>
  The five measurements a latency DataPoint holds when they are the percentiles of the
  durations \<open>ds\<close>.
\<close>

definition latency_summary :: "Duration list \<Rightarrow> (string \<rightharpoonup> Duration)" where
  "latency_summary ds =
     [DurationMinMeasurement \<mapsto> percentile ds 0,
      DurationP10Measurement \<mapsto> percentile ds 10,
      DurationP50Measurement \<mapsto> percentile ds 50,
      DurationP90Measurement \<mapsto> percentile ds 90,
      DurationMaxMeasurement \<mapsto> percentile ds 100]"

text \<open>
  The durations of the probes that succeeded among the \<open>n\<close> probes sent from request
  number \<open>k\<close> on.
\<close>

definition successful_durations :: "(nat \<Rightarrow> response) \<Rightarrow> nat \<Rightarrow> nat \<Rightarrow> Duration list" where
  "successful_durations answers k n =
     map (\<lambda>r. int (elapsed r)) (filter (\<lambda>r. \<not> failed r) (map answers [k ..< k + n]))"

text \<open>
  What every latency collector's state satisfies: one DataPoint per recorded duration,
  the \<open>i\<close>-th holding the percentiles of the first \<open>i + 1\<close> durations.
\<close>

definition cumulative :: "LatencyMetric \<Rightarrow> bool" where
  "cumulative l \<longleftrightarrow>
     length (DataPoints l) = length (durations l) \<and>
     list_all (\<lambda>i. Values (DataPoints l ! i) = latency_summary (take (Suc i) (durations l)))
       [0 ..< length (DataPoints l)]"

text \<open>
  The error \<^verbatim>\<open>execution.PeerMetric.measure\<close> stores for an empty RPC result, whether a
  response is such a result, and what the collector's map of measuring errors can be.
\<close>

definition empty_count_error :: error where
  "empty_count_error =
     errors_Join measuringErr
       ''peer count RPC response was empty. Most likely net_peerCount RPC method is not supported''"

definition empty_result :: "response \<Rightarrow> bool" where
  "empty_result r \<longleftrightarrow> \<not> failed r \<and> status r = 200 \<and> decoded r = Some ''''"

definition errors_known :: "(string \<rightharpoonup> error) \<Rightarrow> bool" where
  "errors_known m \<longleftrightarrow>
     m = Map.empty \<or> m = [execution_PeerCountMeasurement \<mapsto> empty_count_error]"

text \<open>
  A stand-in for \<^verbatim>\<open>metric.FormatPercentiles\<close> in the concrete runs below.
\<close>

definition plain_format :: "'a \<Rightarrow> 'a \<Rightarrow> 'a \<Rightarrow> 'a \<Rightarrow> 'a \<Rightarrow> string" where
  "plain_format a b c d e = ''percentiles''"

text \<open>
  An empty report sink.
\<close>

definition empty_report :: reportService where
  "empty_report = \<lparr>added = [], renders = 0\<rparr>"

text \<open>
  Two successive calls of a collector's \<^verbatim>\<open>AggregateResults\<close>, which takes no argument
  but its receiver: the two strings when both calls return, the panic of the first call
  that panics otherwise.
\<close>

definition called_twice :: "('c \<Rightarrow> panic + string) \<Rightarrow> 'c \<Rightarrow> panic + string \<times> string" where
  "called_twice aggregate c =
     (case aggregate c of
        Inl e \<Rightarrow> Inl e
      | Inr first_string \<Rightarrow>
          (case aggregate c of
             Inl e \<Rightarrow> Inl e
           | Inr second_string \<Rightarrow> Inr (first_string, second_string)))"

section \<open>Properties of the percentile calculator\<close>

lemma ceil_div_100: "- ((- (a::int)) div 100) = (a + 99) div 100"
proof -
  have "a = 100 * (a div 100) + a mod 100" by simp
  then obtain q r where a: "a = 100 * q + r" and r: "0 \<le> r" "r < 100"
    by (metis pos_mod_bound pos_mod_sign zero_less_numeral)
  have neg: "(- a) div 100 = (if r = 0 then - q else - q - 1)"
  proof (cases "r = 0")
    case True
    then show ?thesis using a by simp
  next
    case False
    then have "- a = 100 * (- q - 1) + (100 - r)" using a by simp
    moreover have "0 \<le> 100 - r" "100 - r < 100" using r False by auto
    ultimately have "(- a) div 100 = - q - 1"
      by (metis div_pos_pos_trivial div_mult_self2 add.commute zero_neq_numeral
          add.right_neutral)
    then show ?thesis using False by simp
  qed
  have pos: "(a + 99) div 100 = (if r = 0 then q else q + 1)"
  proof (cases "r = 0")
    case True
    then show ?thesis using a by simp
  next
    case False
    then have "a + 99 = 100 * (q + 1) + (r - 1)" using a by simp
    moreover have "0 \<le> r - 1" "r - 1 < 100" using r False by auto
    ultimately have "(a + 99) div 100 = q + 1"
      by (metis div_pos_pos_trivial div_mult_self2 add.commute zero_neq_numeral
          add.right_neutral)
    then show ?thesis using False by simp
  qed
  show ?thesis using neg pos by simp
qed

lemma ceiling_rank: "\<lceil>real p / 100 * real n\<rceil> = (int p * int n + 99) div 100"
proof -
  have "real p / 100 * real n = real_of_int (int p * int n) / real_of_int 100"
    by simp
  then have "\<lceil>real p / 100 * real n\<rceil> = - ((- (int p * int n)) div 100)"
    by (simp only: ceiling_divide_eq_div)
  then show ?thesis by (simp only: ceil_div_100)
qed

lemma nearest_rank_ceiling:
  "nearest_rank p n = nat (max 0 (min (int n - 1) (\<lceil>real p / 100 * real n\<rceil> - 1)))"
  by (simp only: nearest_rank_def ceiling_rank)

lemma map_of_tabulate:
  "map_of (map (\<lambda>k. (k, f k)) ks) k = (if k \<in> set ks then Some (f k) else None)"
  by (induction ks) auto

lemma CalculatePercentiles_requested:
  "p \<in> set ps \<Longrightarrow> CalculatePercentiles vals ps p = Some (percentile vals p)"
  by (simp add: CalculatePercentiles_def map_of_tabulate)

lemma nearest_rank_less: "0 < n \<Longrightarrow> nearest_rank p n < n"
  by (simp add: nearest_rank_def)

lemma nearest_rank_zero: "nearest_rank 0 n = 0"
  by (simp add: nearest_rank_def)

lemma nearest_rank_hundred: "nearest_rank 100 n = n - 1"
  by (simp add: nearest_rank_def)

lemma nearest_rank_mono: "p \<le> q \<Longrightarrow> nearest_rank p n \<le> nearest_rank q n"
proof -
  assume "p \<le> q"
  then have "int p * int n \<le> int q * int n"
    by (simp add: mult_right_mono)
  then have "(int p * int n + 99) div 100 - 1 \<le> (int q * int n + 99) div 100 - 1"
    by (simp add: zdiv_mono1)
  then show ?thesis
    unfolding nearest_rank_def by (intro nat_mono max.mono min.mono) simp_all
qed

lemma sorted_first_Min:
  fixes xs :: "'a::linorder list"
  assumes "sorted xs" and "xs \<noteq> []"
  shows "xs ! 0 = Min (set xs)"
proof (rule Min_eqI [symmetric])
  show "finite (set xs)" by simp
next
  fix y assume "y \<in> set xs"
  then obtain i where "i < length xs" and "xs ! i = y"
    by (auto simp: in_set_conv_nth)
  then show "xs ! 0 \<le> y"
    using sorted_nth_mono [OF assms(1), of 0 i] by auto
next
  show "xs ! 0 \<in> set xs" using assms(2) by simp
qed

lemma sorted_last_Max:
  fixes xs :: "'a::linorder list"
  assumes "sorted xs" and "xs \<noteq> []"
  shows "xs ! (length xs - 1) = Max (set xs)"
proof (rule Max_eqI [symmetric])
  show "finite (set xs)" by simp
next
  fix y assume "y \<in> set xs"
  then obtain i where "i < length xs" and "xs ! i = y"
    by (auto simp: in_set_conv_nth)
  then show "y \<le> xs ! (length xs - 1)"
    using sorted_nth_mono [OF assms(1), of i "length xs - 1"] by auto
next
  show "xs ! (length xs - 1) \<in> set xs" using assms(2) by simp
qed

lemma sort_Nil_iff: "sort xs = [] \<longleftrightarrow> xs = []"
  by (metis length_0_conv length_sort)

lemma sort_first_Min:
  fixes vals :: "'a::linorder list"
  assumes "vals \<noteq> []"
  shows "sort vals ! 0 = Min (set vals)"
  using sorted_first_Min [of "sort vals"] assms by (simp add: sort_Nil_iff)

lemma sort_last_Max:
  fixes vals :: "'a::linorder list"
  assumes "vals \<noteq> []"
  shows "sort vals ! (length vals - 1) = Max (set vals)"
  using sorted_last_Max [of "sort vals"] assms by (simp add: sort_Nil_iff)

lemma percentile_mono:
  fixes vals :: "'a::{linorder,zero} list"
  assumes "p \<le> q"
  shows "percentile vals p \<le> percentile vals q"
proof (cases "vals = []")
  case True
  then show ?thesis by (simp add: percentile_def)
next
  case False
  then have "nearest_rank q (length vals) < length (sort vals)"
    by (simp add: nearest_rank_less)
  then show ?thesis
    using False sorted_nth_mono [OF sorted_sort nearest_rank_mono [OF assms]]
    by (simp add: percentile_def)
qed

text \<open>
  Claim C5. \<^verbatim>\<open>CalculatePercentiles\<close> follows the nearest-rank method: for a non-empty
  input it returns, for every requested percentile \<open>p\<close>, the element of the sorted values
  at index \<open>ceil(p/100 * n) - 1\<close> clamped to \<open>[0, n-1]\<close>; \<open>p = 0\<close> gives the minimum,
  \<open>p = 100\<close> the maximum, and the result is non-decreasing in \<open>p\<close>. For an empty input
  every requested percentile is the zero value.
\<close>

theorem CalculatePercentiles_nearest_rank:
  fixes vals :: "'a::{linorder,zero} list"
  assumes "p \<in> set ps" and "q \<in> set ps"
  shows "(vals = [] \<longrightarrow> CalculatePercentiles vals ps p = Some 0) \<and>
         (vals \<noteq> [] \<longrightarrow>
            CalculatePercentiles vals ps p =
              Some (sort vals ! nat (max 0 (min (int (length vals) - 1)
                     (\<lceil>real p / 100 * real (length vals)\<rceil> - 1)))) \<and>
            (p = 0 \<longrightarrow> CalculatePercentiles vals ps p = Some (Min (set vals))) \<and>
            (p = 100 \<longrightarrow> CalculatePercentiles vals ps p = Some (Max (set vals))) \<and>
            (p \<le> q \<longrightarrow>
               the (CalculatePercentiles vals ps p) \<le> the (CalculatePercentiles vals ps q)))"
proof (intro conjI impI)
  assume "vals = []"
  then show "CalculatePercentiles vals ps p = Some 0"
    using assms by (simp add: CalculatePercentiles_requested percentile_def)
next
  assume "vals \<noteq> []"
  then show "CalculatePercentiles vals ps p =
      Some (sort vals ! nat (max 0 (min (int (length vals) - 1)
             (\<lceil>real p / 100 * real (length vals)\<rceil> - 1))))"
    using assms
    by (simp only: CalculatePercentiles_requested percentile_def nearest_rank_ceiling if_False)
next
  assume "vals \<noteq> []" "p = 0"
  then show "CalculatePercentiles vals ps p = Some (Min (set vals))"
    using assms
    by (simp add: CalculatePercentiles_requested percentile_def nearest_rank_zero
        sort_first_Min)
next
  assume "vals \<noteq> []" "p = 100"
  then show "CalculatePercentiles vals ps p = Some (Max (set vals))"
    using assms sort_last_Max [of vals]
    by (simp add: CalculatePercentiles_requested percentile_def nearest_rank_hundred)
next
  assume "vals \<noteq> []" "p \<le> q"
  then show "the (CalculatePercentiles vals ps p) \<le> the (CalculatePercentiles vals ps q)"
    using assms by (simp add: CalculatePercentiles_requested percentile_mono)
qed

theorem CalculatePercentiles_nearest_rank_witness:
  "CalculatePercentiles [30, 10, 20 :: int] [0, 50, 100] 0 = Some 10 \<and>
   CalculatePercentiles [30, 10, 20 :: int] [0, 50, 100] 0 = Some (Min {30, 10, 20}) \<and>
   the (CalculatePercentiles [30, 10, 20 :: int] [0, 50, 100] 0)
     \<le> the (CalculatePercentiles [30, 10, 20 :: int] [0, 50, 100] 100) \<and>
   CalculatePercentiles [30, 10, 20 :: int] [0, 50, 100] 100 = Some (Max {30, 10, 20}) \<and>
   CalculatePercentiles ([] :: int list) [0, 50, 100] 0 = Some 0"
  using CalculatePercentiles_nearest_rank [of 0 "[0, 50, 100]" 100 "[30, 10, 20 :: int]"]
    CalculatePercentiles_nearest_rank [of 100 "[0, 50, 100]" 100 "[30, 10, 20 :: int]"]
    CalculatePercentiles_nearest_rank [of 0 "[0, 50, 100]" 100 "[] :: int list"]
  by (simp add: CalculatePercentiles_def percentile_def nearest_rank_def)

section \<open>Properties of the health evaluator\<close>

lemma matched_severities_find:
  "matched_severities fetch cs found x =
     (case found x of
        Some s \<Rightarrow> Some s
      | None \<Rightarrow> map_option Severity
                 (find (\<lambda>c. Name c = x \<and> condition_matches fetch c) cs))"
proof (induction cs arbitrary: found)
  case Nil
  then show ?case by (simp split: option.splits)
next
  case (Cons c cs)
  then show ?case by (auto split: option.splits)
qed

text \<open>
  Claim C7. When several HealthConditions target the same measurement, the evaluator
  applies them in declared order and the first matching condition determines the
  measurement's severity. With the conditions \<open>[X \<ge> 90: High, X \<ge> 70: Medium]\<close>, a
  sample \<open>X = 95\<close> yields High, \<open>X = 75\<close> yields Medium, and a sample matching no condition
  (\<open>X = 10\<close>) yields Healthy with no severity.
\<close>

theorem Evaluate_first_match:
  "snd (Evaluate fetch conds) x =
     map_option Severity (find (\<lambda>c. Name c = x \<and> condition_matches fetch c) conds) \<and>
   Evaluate (latest_value [\<lparr>Timestamp = t, Values = [''X'' \<mapsto> (95::nat)]\<rparr>])
     [\<lparr>Name = ''X'', Threshold = 90, Operator = OperatorGreaterThanOrEqual, Severity = SeverityHigh\<rparr>,
      \<lparr>Name = ''X'', Threshold = 70, Operator = OperatorGreaterThanOrEqual, Severity = SeverityMedium\<rparr>]
     = (Unhealthy, [''X'' \<mapsto> SeverityHigh]) \<and>
   Evaluate (latest_value [\<lparr>Timestamp = t, Values = [''X'' \<mapsto> (75::nat)]\<rparr>])
     [\<lparr>Name = ''X'', Threshold = 90, Operator = OperatorGreaterThanOrEqual, Severity = SeverityHigh\<rparr>,
      \<lparr>Name = ''X'', Threshold = 70, Operator = OperatorGreaterThanOrEqual, Severity = SeverityMedium\<rparr>]
     = (Healthy, [''X'' \<mapsto> SeverityMedium]) \<and>
   Evaluate (latest_value [\<lparr>Timestamp = t, Values = [''X'' \<mapsto> (10::nat)]\<rparr>])
     [\<lparr>Name = ''X'', Threshold = 90, Operator = OperatorGreaterThanOrEqual, Severity = SeverityHigh\<rparr>,
      \<lparr>Name = ''X'', Threshold = 70, Operator = OperatorGreaterThanOrEqual, Severity = SeverityMedium\<rparr>]
     = (Healthy, Map.empty)"
proof (intro conjI)
  show "snd (Evaluate fetch conds) x =
     map_option Severity (find (\<lambda>c. Name c = x \<and> condition_matches fetch c) conds)"
    by (simp add: Evaluate_def Let_def matched_severities_find)
qed (simp_all add: Evaluate_def Let_def condition_matches_def apply_operator_def)

theorem Evaluate_first_match_witness:
  "snd (Evaluate (latest_value [\<lparr>Timestamp = 0, Values = [execution_PeerCountMeasurement \<mapsto> 3]\<rparr>])
          execution_peers_conditions) execution_PeerCountMeasurement = Some SeverityHigh \<and>
   snd (Evaluate (latest_value [\<lparr>Timestamp = 0, Values = [execution_PeerCountMeasurement \<mapsto> 10]\<rparr>])
          execution_peers_conditions) execution_PeerCountMeasurement = Some SeverityMedium \<and>
   snd (Evaluate (latest_value [\<lparr>Timestamp = 0, Values = [execution_PeerCountMeasurement \<mapsto> 30]\<rparr>])
          execution_peers_conditions) execution_PeerCountMeasurement = Some SeverityLow \<and>
   snd (Evaluate (latest_value [\<lparr>Timestamp = 0, Values = [execution_PeerCountMeasurement \<mapsto> 50]\<rparr>])
          execution_peers_conditions) execution_PeerCountMeasurement = None"
  using
    Evaluate_first_match [of
      "latest_value [\<lparr>Timestamp = 0, Values = [execution_PeerCountMeasurement \<mapsto> 3]\<rparr>]"
      execution_peers_conditions execution_PeerCountMeasurement 0]
    Evaluate_first_match [of
      "latest_value [\<lparr>Timestamp = 0, Values = [execution_PeerCountMeasurement \<mapsto> 10]\<rparr>]"
      execution_peers_conditions execution_PeerCountMeasurement 0]
    Evaluate_first_match [of
      "latest_value [\<lparr>Timestamp = 0, Values = [execution_PeerCountMeasurement \<mapsto> 30]\<rparr>]"
      execution_peers_conditions execution_PeerCountMeasurement 0]
    Evaluate_first_match [of
      "latest_value [\<lparr>Timestamp = 0, Values = [execution_PeerCountMeasurement \<mapsto> 50]\<rparr>]"
      execution_peers_conditions execution_PeerCountMeasurement 0]
  by (simp add: execution_peers_conditions_def condition_matches_def apply_operator_def)

section \<open>Properties of the run of \<^verbatim>\<open>Service.Start\<close>\<close>

lemma before_reads_append:
  "before_reads (tr @ es) =
     (if list_ex reads_store tr then before_reads tr else tr @ before_reads es)"
  by (auto simp: before_reads_def list_ex_iff takeWhile_append1 takeWhile_append2)

lemma before_reads_Nil: "before_reads [] = []"
  by (simp add: before_reads_def)

lemma before_reads_Cons:
  "before_reads (e # es) = (if reads_store e then [] else e # before_reads es)"
  by (simp add: before_reads_def)

lemma start_inv_init: "start_inv launch_order (init_state launch_order evaluate_order)"
  by (simp add: start_inv_def init_state_def)

lemma start_inv_start_step:
  assumes "start_inv launch_order s" and "start_step s = Some s'"
  shows "start_inv launch_order s'"
proof (cases "to_launch s")
  case (Cons i rest)
  then have s': "s' = s\<lparr>phases := (phases s)(i := Selecting), to_launch := rest,
                       trace := trace s @ [Launched i]\<rparr>"
    using assms(2) by (simp add: start_step_def)
  show ?thesis
    using assms(1) Cons unfolding s' start_inv_def
    by (auto simp: before_reads_append)
next
  case Nil
  show ?thesis
  proof (cases "past_done s")
    case False
    then have "ctx_done s" and "s' = s\<lparr>past_done := True\<rparr>"
      using assms(2) Nil by (auto simp: start_step_def split: if_splits)
    then show ?thesis
      using assms(1) Nil unfolding start_inv_def by simp
  next
    case True
    show ?thesis
    proof (cases "to_evaluate s")
      case (Cons i rest)
      then have s': "s' = s\<lparr>to_evaluate := rest,
                           trace := trace s @ [Evaluated i, Aggregated i]\<rparr>"
        using assms(2) Nil True by (simp add: start_step_def)
      show ?thesis
        using assms(1) Nil True unfolding s' start_inv_def
        by (auto simp: before_reads_append before_reads_Nil before_reads_Cons)
    next
      case Nil': Nil
      then have s': "s' = s\<lparr>render_called := True, trace := trace s @ [Rendered]\<rparr>"
        using assms(2) Nil True by (auto simp: start_step_def split: if_splits)
      show ?thesis
        using assms(1) unfolding s' start_inv_def
        by (auto simp: before_reads_append before_reads_Nil before_reads_Cons)
    qed
  qed
qed

lemma start_inv_step:
  assumes "start_inv launch_order s" and "step a s = Some s'"
  shows "start_inv launch_order s'"
proof (cases a)
  case StartStep
  then show ?thesis using assms start_inv_start_step by simp
next
  case CancelContext
  then have s': "s' = s\<lparr>ctx_done := True, trace := trace s @ [Cancelled]\<rparr>"
    using assms(2) by (auto split: if_splits)
  have "\<not> past_done s"
    using assms CancelContext by (auto simp: start_inv_def split: if_splits)
  then show ?thesis
    using assms(1) unfolding s' start_inv_def
    by (auto simp: before_reads_append before_reads_Nil before_reads_Cons)
next
  case (TakeTick i)
  then have s': "s' = s\<lparr>phases := (phases s)(i := InTick), trace := trace s @ [TickTaken i]\<rparr>"
    using assms(2) by (auto split: if_splits)
  show ?thesis
    using assms(1) unfolding s' start_inv_def
    by (auto simp: before_reads_append before_reads_Nil before_reads_Cons)
next
  case (FinishTick i)
  then have s': "s' = s\<lparr>phases := (phases s)(i := Selecting),
                       trace := trace s @ [StoreWritten i]\<rparr>"
    using assms(2) by (auto split: if_splits)
  show ?thesis
    using assms(1) unfolding s' start_inv_def
    by (auto simp: before_reads_append before_reads_Nil before_reads_Cons)
next
  case (TakeDone i)
  then have s': "s' = s\<lparr>phases := (phases s)(i := Returned),
                       trace := trace s @ [MeasureReturned i]\<rparr>"
    using assms(2) by (auto split: if_splits)
  show ?thesis
    using assms(1) unfolding s' start_inv_def
    by (auto simp: before_reads_append before_reads_Nil before_reads_Cons)
qed

lemma start_inv_run:
  "start_inv launch_order s \<Longrightarrow> run schedule s = Some s' \<Longrightarrow> start_inv launch_order s'"
proof (induction schedule arbitrary: s)
  case Nil
  then show ?case by simp
next
  case (Cons a schedule)
  then show ?case
    by (auto split: option.splits dest: start_inv_step)
qed

text \<open>
  Claim C1, as amended. In every interleaving of \<^verbatim>\<open>Service.Start\<close> with its collectors, no
  call of \<^verbatim>\<open>EvaluateMetric\<close> or \<^verbatim>\<open>AggregateResults\<close> happens before the context is cancelled
  and every collector's \<^verbatim>\<open>Measure\<close> has been launched. (\<^verbatim>\<open>Start\<close> does not wait for a
  \<^verbatim>\<open>Measure\<close> to return.)
\<close>

theorem Start_reads_after_cancellation:
  assumes "run schedule (init_state launch_order evaluate_order) = Some s"
    and "list_ex reads_store (trace s)"
  shows "Cancelled \<in> set (before_reads (trace s)) \<and>
         list_all (\<lambda>j. Launched j \<in> set (before_reads (trace s))) launch_order"
  using start_inv_run [OF start_inv_init assms(1)] assms(2)
  by (simp add: start_inv_def list_all_iff)

theorem Start_reads_after_cancellation_witness:
  "list_ex reads_store
     (trace (the (run [StartStep, StartStep, TakeTick 1, CancelContext, TakeDone 0, StartStep,
                       StartStep, FinishTick 1, StartStep, StartStep, TakeDone 1]
                    (init_state [0, 1] [0, 1])))) \<and>
   Cancelled \<in> set (before_reads
     (trace (the (run [StartStep, StartStep, TakeTick 1, CancelContext, TakeDone 0, StartStep,
                       StartStep, FinishTick 1, StartStep, StartStep, TakeDone 1]
                    (init_state [0, 1] [0, 1]))))) \<and>
   Launched 0 \<in> set (before_reads
     (trace (the (run [StartStep, StartStep, TakeTick 1, CancelContext, TakeDone 0, StartStep,
                       StartStep, FinishTick 1, StartStep, StartStep, TakeDone 1]
                    (init_state [0, 1] [0, 1]))))) \<and>
   Launched 1 \<in> set (before_reads
     (trace (the (run [StartStep, StartStep, TakeTick 1, CancelContext, TakeDone 0, StartStep,
                       StartStep, FinishTick 1, StartStep, StartStep, TakeDone 1]
                    (init_state [0, 1] [0, 1])))))"
proof -
  obtain s where s:
    "run [StartStep, StartStep, TakeTick 1, CancelContext, TakeDone 0, StartStep,
          StartStep, FinishTick 1, StartStep, StartStep, TakeDone 1]
       (init_state [0, 1] [0, 1]) = Some s"
    by (simp add: init_state_def start_step_def)
  have "trace s =
      [Launched 0, Launched 1, TickTaken 1, Cancelled, MeasureReturned 0, Evaluated 0,
       Aggregated 0, StoreWritten 1, Evaluated 1, Aggregated 1, Rendered, MeasureReturned 1]"
    using s by (auto simp: init_state_def start_step_def)
  then have reads: "list_ex reads_store (trace s)"
    by simp
  show ?thesis
    using Start_reads_after_cancellation [OF s reads] reads s by simp
qed

text \<open>
  Claim C1, as stated, fails: with one collector, \<^verbatim>\<open>Start\<close> launches it, the collector takes
  a tick, the context is cancelled, \<^verbatim>\<open>Start\<close> passes \<^verbatim>\<open><-ctx.Done()\<close> and calls
  \<^verbatim>\<open>EvaluateMetric\<close> and \<^verbatim>\<open>AggregateResults\<close> while the collector is still inside its tick; the
  collector writes its store afterwards, and its \<^verbatim>\<open>Measure\<close> has not returned.
\<close>

theorem Start_reads_before_Measure_returns:
  "map_option trace
     (run [StartStep, TakeTick 0, CancelContext, StartStep, StartStep, FinishTick 0]
        (init_state [0] [0]))
   = Some [Launched 0, TickTaken 0, Cancelled, Evaluated 0, Aggregated 0, StoreWritten 0]"
  by (simp add: init_state_def start_step_def)

section \<open>Properties of one tick\<close>

lemma at_key_CalculatePercentiles:
  "p \<in> set ps \<Longrightarrow> at_key (CalculatePercentiles vals ps) p = percentile vals p"
  by (simp add: at_key_def CalculatePercentiles_requested)

lemma LatencyMetric_writeMetric_eq:
  "LatencyMetric_writeMetric t latency l =
     l\<lparr>DataPoints := DataPoints l @ [\<lparr>Timestamp = t, Values = latency_summary (durations l)\<rparr>]\<rparr>"
  by (simp add: LatencyMetric_writeMetric_def Let_def AddDataPoint_def latency_summary_def
      at_key_CalculatePercentiles)

lemma measureNodeHealth_tick:
  assumes "measureNodeHealth w c = (w', c')"
  shows "issued w' = issued w @ [\<lparr>req_url = client_url c @ ''/eth/v1/node/health'', req_timeout = None\<rparr>]"
    and "length (DataPoints c') = Suc (length (DataPoints c))"
    and "client_url c' = client_url c"
  using assms
  by (auto simp: measureNodeHealth_def AddDataPoint_def probe_def Let_def split: if_splits)

lemma measureNodeVersion_tick:
  assumes "measureNodeVersion w c = (w', c')"
  shows "issued w' = issued w @ [\<lparr>req_url = client_url c @ ''/eth/v1/node/version'', req_timeout = None\<rparr>]"
    and "length (DataPoints c') = Suc (length (DataPoints c))"
    and "client_url c' = client_url c"
  using assms
  by (auto simp: measureNodeVersion_def AddDataPoint_def probe_def Let_def
      split: if_splits option.splits)

lemma measureSyncStatus_tick:
  assumes "measureSyncStatus w c = (w', c')"
  shows "issued w' = issued w @ [\<lparr>req_url = client_url c @ ''/eth/v1/node/syncing'', req_timeout = None\<rparr>]"
    and "length (DataPoints c') = Suc (length (DataPoints c))"
    and "client_url c' = client_url c"
  using assms
  by (auto simp: measureSyncStatus_def AddDataPoint_def probe_def Let_def split: if_splits)

lemma measureLatency_tick:
  assumes "measureLatency w c = (w', c')"
  shows "issued w' = issued w @ [\<lparr>req_url = client_url c @ ''/eth/v1/node/health'', req_timeout = None\<rparr>]"
    and "length (DataPoints c') = Suc (length (DataPoints c))"
    and "client_url c' = client_url c"
  using assms
  by (auto simp: measureLatency_def AddDataPoint_def probe_def Let_def split: if_splits)

lemma ClientMetric_tick_counts:
  assumes "ClientMetric_tick w c = (w', c')"
  shows "length (issued w') = length (issued w) + 4"
    and "length (DataPoints c') = length (DataPoints c) + 4"
    and "list_all (\<lambda>rq. req_timeout rq = None) (drop (length (issued w)) (issued w'))"
proof -
  obtain w1 c1 where h: "measureNodeHealth w c = (w1, c1)" by (cases "measureNodeHealth w c")
  obtain w2 c2 where v: "measureNodeVersion w1 c1 = (w2, c2)" by (cases "measureNodeVersion w1 c1")
  obtain w3 c3 where s: "measureSyncStatus w2 c2 = (w3, c3)" by (cases "measureSyncStatus w2 c2")
  have l: "measureLatency w3 c3 = (w', c')"
    using assms h v s by (simp add: ClientMetric_tick_def)
  note hs = measureNodeHealth_tick [OF h] and vs = measureNodeVersion_tick [OF v]
    and ss = measureSyncStatus_tick [OF s] and ls = measureLatency_tick [OF l]
  show "length (issued w') = length (issued w) + 4"
    by (simp add: hs(1) vs(1) ss(1) ls(1))
  show "length (DataPoints c') = length (DataPoints c) + 4"
    by (simp add: hs(2) vs(2) ss(2) ls(2))
  show "list_all (\<lambda>rq. req_timeout rq = None) (drop (length (issued w)) (issued w'))"
    by (simp add: hs(1) vs(1) ss(1) ls(1))
qed

lemma consensus_LatencyMetric_measure_tick:
  assumes "consensus_LatencyMetric_measure w l = (w', l')"
  shows "issued w' = issued w @
           [\<lparr>req_url = latency_url l,
             req_timeout = (if latency_timeout l \<le> 0 then None else Some (latency_timeout l))\<rparr>]"
    and "length (DataPoints l') =
           length (DataPoints l) + (if failed (respond w (length (issued w))) then 0 else 1)"
  using assms
  by (auto simp: consensus_LatencyMetric_measure_def LatencyMetric_writeMetric_def
      AddDataPoint_def probe_def Let_def split: if_splits)

lemma execution_LatencyMetric_measure_tick:
  assumes "execution_LatencyMetric_measure w l = (w', l')"
  shows "issued w' = issued w @
           [\<lparr>req_url = latency_url l,
             req_timeout = (if latency_timeout l = 0 then None else Some (latency_timeout l))\<rparr>]"
    and "length (DataPoints l') =
           length (DataPoints l) + (if failed (respond w (length (issued w))) then 0 else 1)"
  using assms
  by (auto simp: execution_LatencyMetric_measure_def LatencyMetric_writeMetric_def
      AddDataPoint_def probe_def Let_def split: if_splits)

lemma execution_PeerMetric_measure_tick:
  assumes "execution_PeerMetric_measure w p = Inr (w', p')"
  shows "issued w' = issued w @ [\<lparr>req_url = peer_url p, req_timeout = Some (5 * Second)\<rparr>]"
    and "length (DataPoints p') = Suc (length (DataPoints p))"
    and "failed (respond w (length (issued w))) \<or> status (respond w (length (issued w))) \<noteq> 200 \<or>
         decoded (respond w (length (issued w))) = None \<or>
         decoded (respond w (length (issued w))) = Some '''' \<Longrightarrow>
         Values (last (DataPoints p')) execution_PeerCountMeasurement = Some 0"
  using assms
  by (auto simp: execution_PeerMetric_measure_def execution_PeerMetric_writeMetric_def
      AddDataPoint_def probe_def Let_def split: if_splits option.splits)

lemma length_less_two: "length xs < 2 \<longleftrightarrow> xs = [] \<or> length xs = Suc 0"
  by (cases xs) auto

lemma execution_PeerMetric_measure_returns:
  assumes "parses w (peer_url p)"
    and "\<not> (\<not> failed (respond w (length (issued w))) \<and>
            status (respond w (length (issued w))) = 200 \<and>
            (\<exists>hex. decoded (respond w (length (issued w))) = Some hex \<and> length hex = 1))"
  shows "\<exists>w' p'. execution_PeerMetric_measure w p = Inr (w', p')"
  using assms
  by (auto simp: execution_PeerMetric_measure_def probe_def Let_def length_less_two
      split: option.splits)

lemma measureNodeHealth_values:
  assumes "measureNodeHealth w c = (w', c')"
  shows "respond w' = respond w"
    and "map Values (DataPoints c') = map Values (DataPoints c) @
           [[NodeHealthMeasurement \<mapsto>
               (if failed (respond w (length (issued w))) \<or>
                   status (respond w (length (issued w))) \<noteq> 200
                then ''Unhealthy'' else ''Healthy'')]]"
  using assms
  by (auto simp: measureNodeHealth_def AddDataPoint_def probe_def Let_def split: if_splits)

lemma measureNodeVersion_values:
  assumes "measureNodeVersion w c = (w', c')"
  shows "respond w' = respond w"
    and "map Values (DataPoints c') = map Values (DataPoints c) @
           [[VersionMeasurement \<mapsto>
               (if failed (respond w (length (issued w))) \<or>
                   status (respond w (length (issued w))) \<noteq> 200
                then ''''
                else (case decoded (respond w (length (issued w))) of
                        None \<Rightarrow> '''' | Some version \<Rightarrow> version))]]"
  using assms
  by (auto simp: measureNodeVersion_def AddDataPoint_def probe_def Let_def
      split: if_splits option.splits)

lemma measureSyncStatus_values:
  assumes "measureSyncStatus w c = (w', c')"
  shows "respond w' = respond w"
    and "map Values (DataPoints c') = map Values (DataPoints c) @
           [[SyncStatusMeasurement \<mapsto>
               (if failed (respond w (length (issued w))) \<or>
                   status (respond w (length (issued w))) \<noteq> 200
                then ''Not Synced'' else ''Synced'')]]"
  using assms
  by (auto simp: measureSyncStatus_def AddDataPoint_def probe_def Let_def split: if_splits)

lemma measureLatency_values:
  assumes "measureLatency w c = (w', c')"
  shows "respond w' = respond w"
    and "map Values (DataPoints c') = map Values (DataPoints c) @
           [[LatencyMeasurement \<mapsto>
               (if failed (respond w (length (issued w))) then ''Error''
                else decimal (elapsed (respond w (length (issued w))) div 1000000) @ ''ms'')]]"
  using assms
  by (auto simp: measureLatency_def AddDataPoint_def probe_def Let_def split: if_splits)

lemma ClientMetric_tick_values:
  assumes "ClientMetric_tick w c = (w', c')"
  shows "map Values (DataPoints c') = map Values (DataPoints c) @
     [[NodeHealthMeasurement \<mapsto>
         (if failed (respond w (length (issued w))) \<or>
             status (respond w (length (issued w))) \<noteq> 200
          then ''Unhealthy'' else ''Healthy'')],
      [VersionMeasurement \<mapsto>
         (if failed (respond w (length (issued w) + 1)) \<or>
             status (respond w (length (issued w) + 1)) \<noteq> 200
          then ''''
          else (case decoded (respond w (length (issued w) + 1)) of
                  None \<Rightarrow> '''' | Some version \<Rightarrow> version))],
      [SyncStatusMeasurement \<mapsto>
         (if failed (respond w (length (issued w) + 2)) \<or>
             status (respond w (length (issued w) + 2)) \<noteq> 200
          then ''Not Synced'' else ''Synced'')],
      [LatencyMeasurement \<mapsto>
         (if failed (respond w (length (issued w) + 3)) then ''Error''
          else decimal (elapsed (respond w (length (issued w) + 3)) div 1000000) @ ''ms'')]]"
proof -
  obtain w1 c1 where h: "measureNodeHealth w c = (w1, c1)" by (cases "measureNodeHealth w c")
  obtain w2 c2 where v: "measureNodeVersion w1 c1 = (w2, c2)" by (cases "measureNodeVersion w1 c1")
  obtain w3 c3 where s: "measureSyncStatus w2 c2 = (w3, c3)" by (cases "measureSyncStatus w2 c2")
  have l: "measureLatency w3 c3 = (w', c')"
    using assms h v s by (simp add: ClientMetric_tick_def)
  note hs = measureNodeHealth_tick [OF h] and vs = measureNodeVersion_tick [OF v]
    and ss = measureSyncStatus_tick [OF s]
  note hv = measureNodeHealth_values [OF h] and vv = measureNodeVersion_values [OF v]
    and sv = measureSyncStatus_values [OF s] and lv = measureLatency_values [OF l]
  have n1: "length (issued w1) = length (issued w) + 1"
    and n2: "length (issued w2) = length (issued w) + 2"
    and n3: "length (issued w3) = length (issued w) + 3"
    by (simp_all add: hs(1) vs(1) ss(1))
  have r1: "respond w1 = respond w" and r2: "respond w2 = respond w"
    and r3: "respond w3 = respond w"
    by (simp_all add: hv(1) vv(1) sv(1))
  show ?thesis
    unfolding lv(2) sv(2) vv(2) hv(2) n1 n2 n3 r1 r2 r3 by simp
qed

lemma consensus_LatencyMetric_measure_DataPoints:
  assumes "consensus_LatencyMetric_measure w l = (w', l')"
  shows "DataPoints l' =
           (if failed (respond w (length (issued w))) then DataPoints l
            else DataPoints l @
              [\<lparr>Timestamp = now w',
                Values = latency_summary
                  (durations l @ [int (elapsed (respond w (length (issued w))))])\<rparr>])"
  using assms
  by (auto simp: consensus_LatencyMetric_measure_def LatencyMetric_writeMetric_eq probe_def
      Let_def split: if_splits)

lemma execution_LatencyMetric_measure_DataPoints:
  assumes "execution_LatencyMetric_measure w l = (w', l')"
  shows "DataPoints l' =
           (if failed (respond w (length (issued w))) then DataPoints l
            else DataPoints l @
              [\<lparr>Timestamp = now w',
                Values = latency_summary
                  (durations l @ [int (elapsed (respond w (length (issued w))))])\<rparr>])"
  using assms
  by (auto simp: execution_LatencyMetric_measure_def LatencyMetric_writeMetric_eq probe_def
      Let_def split: if_splits)

lemma execution_PeerMetric_measure_parsed:
  assumes "execution_PeerMetric_measure w p = Inr (w', p')"
    and "\<not> failed (respond w (length (issued w)))"
    and "status (respond w (length (issued w))) = 200"
    and "decoded (respond w (length (issued w))) = Some hex"
    and "ParseInt_16_64 (drop 2 hex) = Some n"
  shows "DataPoints p' = DataPoints p @
           [\<lparr>Timestamp = now w',
             Values = [execution_PeerCountMeasurement \<mapsto> word_of_int n]\<rparr>]"
proof -
  have "hex \<noteq> []"
    using assms(5) by (auto simp: ParseInt_16_64_def)
  then show ?thesis
    using assms
    by (auto simp: execution_PeerMetric_measure_def execution_PeerMetric_writeMetric_def
        AddDataPoint_def probe_def Let_def split: if_splits)
qed

lemma execution_PeerMetric_measure_marker:
  assumes "execution_PeerMetric_measure w p = Inr (w', p')"
    and "\<not> (\<exists>hex n. \<not> failed (respond w (length (issued w))) \<and>
                   status (respond w (length (issued w))) = 200 \<and>
                   decoded (respond w (length (issued w))) = Some hex \<and>
                   ParseInt_16_64 (drop 2 hex) = Some n)"
  shows "DataPoints p' = DataPoints p @
           [\<lparr>Timestamp = now w', Values = [execution_PeerCountMeasurement \<mapsto> 0]\<rparr>]"
  using assms
  by (auto simp: execution_PeerMetric_measure_def execution_PeerMetric_writeMetric_def
      AddDataPoint_def probe_def Let_def split: if_splits option.splits)

text \<open>
  Claim C2, as amended. In one tick no probe is retried, and: a latency collector performs
  exactly one probe attempt and writes exactly one DataPoint, holding the percentiles of
  its durations, when the probe succeeds and none when it fails; the execution peer
  collector's \<^verbatim>\<open>measure\<close> returns whenever the address parses and the RPC result is not a
  single character, and then it has performed exactly one probe attempt and written
  exactly one DataPoint, holding the parsed count when the response is a parsable count
  and zero in every other case; the consensus client collector performs four probe
  attempts (health, version, syncing, latency) and writes four DataPoints, each the
  value or the failure marker of its probe.
\<close>

theorem tick_probes_and_DataPoints:
  "(consensus_LatencyMetric_measure w l = (w', l') \<or>
    execution_LatencyMetric_measure w l = (w', l') \<longrightarrow>
      length (issued w') = length (issued w) + 1 \<and>
      (failed (respond w (length (issued w))) \<longrightarrow> DataPoints l' = DataPoints l) \<and>
      (\<not> failed (respond w (length (issued w))) \<longrightarrow>
         DataPoints l' = DataPoints l @
           [\<lparr>Timestamp = now w',
             Values = latency_summary
               (durations l @ [int (elapsed (respond w (length (issued w))))])\<rparr>])) \<and>
   (parses w (peer_url p) \<and>
    \<not> (\<not> failed (respond w (length (issued w))) \<and>
       status (respond w (length (issued w))) = 200 \<and>
       (\<exists>hex. decoded (respond w (length (issued w))) = Some hex \<and> length hex = 1)) \<longrightarrow>
      (\<exists>w' p'. execution_PeerMetric_measure w p = Inr (w', p'))) \<and>
   (execution_PeerMetric_measure w p = Inr (w', p') \<longrightarrow>
      length (issued w') = length (issued w) + 1 \<and>
      (\<not> failed (respond w (length (issued w))) \<and>
       status (respond w (length (issued w))) = 200 \<and>
       decoded (respond w (length (issued w))) = Some hex \<and>
       ParseInt_16_64 (drop 2 hex) = Some n \<longrightarrow>
         DataPoints p' = DataPoints p @
           [\<lparr>Timestamp = now w',
             Values = [execution_PeerCountMeasurement \<mapsto> word_of_int n]\<rparr>]) \<and>
      (\<not> (\<exists>hex n. \<not> failed (respond w (length (issued w))) \<and>
                  status (respond w (length (issued w))) = 200 \<and>
                  decoded (respond w (length (issued w))) = Some hex \<and>
                  ParseInt_16_64 (drop 2 hex) = Some n) \<longrightarrow>
         DataPoints p' = DataPoints p @
           [\<lparr>Timestamp = now w',
             Values = [execution_PeerCountMeasurement \<mapsto> 0]\<rparr>])) \<and>
   (ClientMetric_tick w c = (w', c') \<longrightarrow>
      length (issued w') = length (issued w) + 4 \<and>
      map Values (DataPoints c') = map Values (DataPoints c) @
        [[NodeHealthMeasurement \<mapsto>
            (if failed (respond w (length (issued w))) \<or>
                status (respond w (length (issued w))) \<noteq> 200
             then ''Unhealthy'' else ''Healthy'')],
         [VersionMeasurement \<mapsto>
            (if failed (respond w (length (issued w) + 1)) \<or>
                status (respond w (length (issued w) + 1)) \<noteq> 200
             then ''''
             else (case decoded (respond w (length (issued w) + 1)) of
                     None \<Rightarrow> '''' | Some version \<Rightarrow> version))],
         [SyncStatusMeasurement \<mapsto>
            (if failed (respond w (length (issued w) + 2)) \<or>
                status (respond w (length (issued w) + 2)) \<noteq> 200
             then ''Not Synced'' else ''Synced'')],
         [LatencyMeasurement \<mapsto>
            (if failed (respond w (length (issued w) + 3)) then ''Error''
             else decimal (elapsed (respond w (length (issued w) + 3)) div 1000000) @
                  ''ms'')]])"
proof (intro conjI impI)
  assume m: "consensus_LatencyMetric_measure w l = (w', l') \<or>
    execution_LatencyMetric_measure w l = (w', l')"
  then have i: "length (issued w') = length (issued w) + 1"
    and d: "DataPoints l' =
           (if failed (respond w (length (issued w))) then DataPoints l
            else DataPoints l @
              [\<lparr>Timestamp = now w',
                Values = latency_summary
                  (durations l @ [int (elapsed (respond w (length (issued w))))])\<rparr>])"
    using consensus_LatencyMetric_measure_tick(1) [of w l w' l']
      execution_LatencyMetric_measure_tick(1) [of w l w' l']
      consensus_LatencyMetric_measure_DataPoints [of w l w' l']
      execution_LatencyMetric_measure_DataPoints [of w l w' l']
    by auto
  show "length (issued w') = length (issued w) + 1" by (rule i)
  {
    assume "failed (respond w (length (issued w)))"
    then show "DataPoints l' = DataPoints l" using d by simp
  }
  {
    assume "\<not> failed (respond w (length (issued w)))"
    then show "DataPoints l' = DataPoints l @
           [\<lparr>Timestamp = now w',
             Values = latency_summary
               (durations l @ [int (elapsed (respond w (length (issued w))))])\<rparr>]"
      using d by simp
  }
next
  assume "parses w (peer_url p) \<and>
    \<not> (\<not> failed (respond w (length (issued w))) \<and>
       status (respond w (length (issued w))) = 200 \<and>
       (\<exists>hex. decoded (respond w (length (issued w))) = Some hex \<and> length hex = 1))"
  then show "\<exists>w' p'. execution_PeerMetric_measure w p = Inr (w', p')"
    using execution_PeerMetric_measure_returns [of w p] by blast
next
  assume m: "execution_PeerMetric_measure w p = Inr (w', p')"
  show "length (issued w') = length (issued w) + 1"
    by (simp add: execution_PeerMetric_measure_tick(1) [OF m])
  {
    assume "\<not> failed (respond w (length (issued w))) \<and>
       status (respond w (length (issued w))) = 200 \<and>
       decoded (respond w (length (issued w))) = Some hex \<and>
       ParseInt_16_64 (drop 2 hex) = Some n"
    then show "DataPoints p' = DataPoints p @
           [\<lparr>Timestamp = now w',
             Values = [execution_PeerCountMeasurement \<mapsto> word_of_int n]\<rparr>]"
      using execution_PeerMetric_measure_parsed [OF m] by blast
  }
  {
    assume "\<not> (\<exists>hex n. \<not> failed (respond w (length (issued w))) \<and>
                  status (respond w (length (issued w))) = 200 \<and>
                  decoded (respond w (length (issued w))) = Some hex \<and>
                  ParseInt_16_64 (drop 2 hex) = Some n)"
    then show "DataPoints p' = DataPoints p @
           [\<lparr>Timestamp = now w',
             Values = [execution_PeerCountMeasurement \<mapsto> 0]\<rparr>]"
      by (rule execution_PeerMetric_measure_marker [OF m])
  }
next
  assume t: "ClientMetric_tick w c = (w', c')"
  show "length (issued w') = length (issued w) + 4"
    by (rule ClientMetric_tick_counts(1) [OF t])
  show "map Values (DataPoints c') = map Values (DataPoints c) @
        [[NodeHealthMeasurement \<mapsto>
            (if failed (respond w (length (issued w))) \<or>
                status (respond w (length (issued w))) \<noteq> 200
             then ''Unhealthy'' else ''Healthy'')],
         [VersionMeasurement \<mapsto>
            (if failed (respond w (length (issued w) + 1)) \<or>
                status (respond w (length (issued w) + 1)) \<noteq> 200
             then ''''
             else (case decoded (respond w (length (issued w) + 1)) of
                     None \<Rightarrow> '''' | Some version \<Rightarrow> version))],
         [SyncStatusMeasurement \<mapsto>
            (if failed (respond w (length (issued w) + 2)) \<or>
                status (respond w (length (issued w) + 2)) \<noteq> 200
             then ''Not Synced'' else ''Synced'')],
         [LatencyMeasurement \<mapsto>
            (if failed (respond w (length (issued w) + 3)) then ''Error''
             else decimal (elapsed (respond w (length (issued w) + 3)) div 1000000) @
                  ''ms'')]]"
    by (rule ClientMetric_tick_values [OF t])
qed

lemmas fixture_defs =
  fresh_world_def replies_def refused_def answered_def accepts_every_url_def
  enabled_execution_PeerMetric_def execution_NewPeerMetric_def enabled_LatencyMetric_def
  NewLatencyMetric_def NewClientMetric_def probe_def Let_def AddDataPoint_def

theorem tick_probes_and_DataPoints_witness:
  "length (issued (fst (consensus_LatencyMetric_measure (fresh_world [] refused)
      (enabled_LatencyMetric ''beacon:5052'')))) = 1 \<and>
   DataPoints (snd (consensus_LatencyMetric_measure (fresh_world [] refused)
      (enabled_LatencyMetric ''beacon:5052''))) = [] \<and>
   map Values (DataPoints (snd (execution_LatencyMetric_measure
      (fresh_world [answered [] 2000000] refused) (enabled_LatencyMetric ''geth:8545'')))) =
     [latency_summary [2000000]] \<and>
   (\<exists>w' p'. execution_PeerMetric_measure (fresh_world [answered ''0x19'' 5] refused)
      (enabled_execution_PeerMetric ''http://geth:8545'') = Inr (w', p')) \<and>
   map Values (DataPoints (snd (projr (execution_PeerMetric_measure
      (fresh_world [answered ''0x19'' 5] refused)
      (enabled_execution_PeerMetric ''http://geth:8545''))))) =
     [[execution_PeerCountMeasurement \<mapsto> 25]] \<and>
   map Values (DataPoints (snd (projr (execution_PeerMetric_measure
      (fresh_world [answered ''0xzz'' 5] refused)
      (enabled_execution_PeerMetric ''http://geth:8545''))))) =
     [[execution_PeerCountMeasurement \<mapsto> 0]] \<and>
   map Values (DataPoints (snd (projr (execution_PeerMetric_measure (fresh_world [] refused)
      (enabled_execution_PeerMetric ''http://geth:8545''))))) =
     [[execution_PeerCountMeasurement \<mapsto> 0]] \<and>
   length (issued (fst (ClientMetric_tick (fresh_world [] refused)
      (NewClientMetric ''http://beacon:5052'' ''Client'' [] Second)))) = 4 \<and>
   map Values (DataPoints (snd (ClientMetric_tick (fresh_world [] refused)
      (NewClientMetric ''http://beacon:5052'' ''Client'' [] Second)))) =
     [[NodeHealthMeasurement \<mapsto> ''Unhealthy''], [VersionMeasurement \<mapsto> ''''],
      [SyncStatusMeasurement \<mapsto> ''Not Synced''], [LatencyMeasurement \<mapsto> ''Error'']]"
proof -
  let ?down = "fresh_world [] refused"
  let ?up = "fresh_world [answered ''0x19'' 5] refused"
  let ?odd = "fresh_world [answered ''0xzz'' 5] refused"
  let ?dial = "fresh_world [answered [] 2000000] refused"
  let ?L = "enabled_LatencyMetric ''beacon:5052''"
  let ?E = "enabled_LatencyMetric ''geth:8545''"
  let ?P = "enabled_execution_PeerMetric ''http://geth:8545''"
  let ?C = "NewClientMetric ''http://beacon:5052'' ''Client'' [] Second"
  have up: "execution_PeerMetric_measure ?up ?P =
      Inr (fst (projr (execution_PeerMetric_measure ?up ?P)),
           snd (projr (execution_PeerMetric_measure ?up ?P)))"
    by (simp add: execution_PeerMetric_measure_def fixture_defs ParseInt_16_64_def
        hex_digit_def)
  have odd: "execution_PeerMetric_measure ?odd ?P =
      Inr (fst (projr (execution_PeerMetric_measure ?odd ?P)),
           snd (projr (execution_PeerMetric_measure ?odd ?P)))"
    by (simp add: execution_PeerMetric_measure_def fixture_defs ParseInt_16_64_def
        hex_digit_def)
  have down: "execution_PeerMetric_measure ?down ?P =
      Inr (fst (projr (execution_PeerMetric_measure ?down ?P)),
           snd (projr (execution_PeerMetric_measure ?down ?P)))"
    by (simp add: execution_PeerMetric_measure_def fixture_defs)
  have parsed: "ParseInt_16_64 (drop 2 ''0x19'') = Some 25"
    by (simp add: ParseInt_16_64_def hex_digit_def)
  have unparsed: "ParseInt_16_64 (drop 2 ''0xzz'') = None"
    by (simp add: ParseInt_16_64_def hex_digit_def)
  note latency_down = tick_probes_and_DataPoints
    [where w = ?down and l = ?L
       and w' = "fst (consensus_LatencyMetric_measure ?down ?L)"
       and l' = "snd (consensus_LatencyMetric_measure ?down ?L)"]
  note latency_up = tick_probes_and_DataPoints
    [where w = ?dial and l = ?E
       and w' = "fst (execution_LatencyMetric_measure ?dial ?E)"
       and l' = "snd (execution_LatencyMetric_measure ?dial ?E)"]
  note peers_up = tick_probes_and_DataPoints
    [where w = ?up and p = ?P
       and w' = "fst (projr (execution_PeerMetric_measure ?up ?P))"
       and p' = "snd (projr (execution_PeerMetric_measure ?up ?P))"
       and hex = "''0x19''" and n = 25]
  note peers_odd = tick_probes_and_DataPoints
    [where w = ?odd and p = ?P
       and w' = "fst (projr (execution_PeerMetric_measure ?odd ?P))"
       and p' = "snd (projr (execution_PeerMetric_measure ?odd ?P))"]
  note peers_down = tick_probes_and_DataPoints
    [where w = ?down and p = ?P
       and w' = "fst (projr (execution_PeerMetric_measure ?down ?P))"
       and p' = "snd (projr (execution_PeerMetric_measure ?down ?P))"]
  note client = tick_probes_and_DataPoints
    [where w = ?down and c = ?C
       and w' = "fst (ClientMetric_tick ?down ?C)"
       and c' = "snd (ClientMetric_tick ?down ?C)"]
  have a: "length (issued (fst (consensus_LatencyMetric_measure ?down ?L))) = 1"
    and b: "DataPoints (snd (consensus_LatencyMetric_measure ?down ?L)) = []"
    using latency_down by (simp_all add: fixture_defs)
  have c: "map Values (DataPoints (snd (execution_LatencyMetric_measure ?dial ?E))) =
      [latency_summary [2000000]]"
    using latency_up by (simp add: fixture_defs)
  have d: "\<exists>w' p'. execution_PeerMetric_measure ?up ?P = Inr (w', p')"
    using up by blast
  have e: "map Values (DataPoints (snd (projr (execution_PeerMetric_measure ?up ?P)))) =
      [[execution_PeerCountMeasurement \<mapsto> 25]]"
    using peers_up up parsed by (simp add: fixture_defs)
  have f: "map Values (DataPoints (snd (projr (execution_PeerMetric_measure ?odd ?P)))) =
      [[execution_PeerCountMeasurement \<mapsto> 0]]"
    using peers_odd odd unparsed by (simp add: fixture_defs)
  have g: "map Values (DataPoints (snd (projr (execution_PeerMetric_measure ?down ?P)))) =
      [[execution_PeerCountMeasurement \<mapsto> 0]]"
    using peers_down down by (simp add: fixture_defs)
  have h: "length (issued (fst (ClientMetric_tick ?down ?C))) = 4"
    and i: "map Values (DataPoints (snd (ClientMetric_tick ?down ?C))) =
     [[NodeHealthMeasurement \<mapsto> ''Unhealthy''], [VersionMeasurement \<mapsto> ''''],
      [SyncStatusMeasurement \<mapsto> ''Not Synced''], [LatencyMeasurement \<mapsto> ''Error'']]"
    using client by (simp_all add: fixture_defs)
  show ?thesis
    using a b c d e f g h i by blast
qed

text \<open>
  Claim C2, as stated, fails: a latency probe that fails writes no DataPoint in its tick,
  and one tick of the consensus client collector performs four probes and writes four
  DataPoints.
\<close>

theorem tick_without_one_DataPoint:
  "length (DataPoints (snd (consensus_LatencyMetric_measure (fresh_world [] refused)
      (enabled_LatencyMetric ''beacon:5052'')))) = 0 \<and>
   length (DataPoints (snd (execution_LatencyMetric_measure (fresh_world [] refused)
      (enabled_LatencyMetric ''geth:8545'')))) = 0 \<and>
   length (issued (fst (ClientMetric_tick (fresh_world [] refused)
      (NewClientMetric ''http://beacon:5052'' ''Client'' [] Second)))) = 4 \<and>
   length (DataPoints (snd (ClientMetric_tick (fresh_world [] refused)
      (NewClientMetric ''http://beacon:5052'' ''Client'' [] Second)))) = 4"
  by (simp add: consensus_LatencyMetric_measure_def execution_LatencyMetric_measure_def
      ClientMetric_tick_def measureNodeHealth_def measureNodeVersion_def
      measureSyncStatus_def measureLatency_def fixture_defs)

section \<open>Properties of the latency collectors\<close>

lemma cumulative_extend:
  assumes "cumulative l"
  shows "cumulative
           (l\<lparr>durations := durations l @ [d],
              DataPoints := DataPoints l @
                [\<lparr>Timestamp = t, Values = latency_summary (durations l @ [d])\<rparr>]\<rparr>)"
  using assms
  by (auto simp: cumulative_def list_all_iff nth_append less_Suc_eq)

lemma consensus_LatencyMetric_measure_step:
  assumes "consensus_LatencyMetric_measure w l = (w', l')"
  shows "respond w' = respond w"
    and "length (issued w') = Suc (length (issued w))"
    and "durations l' = durations l @ successful_durations (respond w) (length (issued w)) 1"
    and "cumulative l \<Longrightarrow> cumulative l'"
proof -
  let ?r = "respond w (length (issued w))"
  have l': "l' = (if failed ?r then l
      else l\<lparr>durations := durations l @ [int (elapsed ?r)],
             DataPoints := DataPoints l @
               [\<lparr>Timestamp = now w', Values = latency_summary (durations l @ [int (elapsed ?r)])\<rparr>]\<rparr>)"
    and w': "respond w' = respond w" "issued w' = issued w @
        [\<lparr>req_url = latency_url l,
          req_timeout = (if latency_timeout l \<le> 0 then None else Some (latency_timeout l))\<rparr>]"
    using assms
    by (auto simp: consensus_LatencyMetric_measure_def LatencyMetric_writeMetric_eq probe_def
        Let_def split: if_splits)
  show "respond w' = respond w" by (rule w'(1))
  show "length (issued w') = Suc (length (issued w))" by (simp add: w'(2))
  show "durations l' = durations l @ successful_durations (respond w) (length (issued w)) 1"
    by (simp add: l' successful_durations_def)
  show "cumulative l \<Longrightarrow> cumulative l'"
    using cumulative_extend [where l = l and d = "int (elapsed ?r)" and t = "now w'"]
    by (simp add: l')
qed

lemma execution_LatencyMetric_measure_step:
  assumes "execution_LatencyMetric_measure w l = (w', l')"
  shows "respond w' = respond w"
    and "length (issued w') = Suc (length (issued w))"
    and "durations l' = durations l @ successful_durations (respond w) (length (issued w)) 1"
    and "cumulative l \<Longrightarrow> cumulative l'"
proof -
  let ?r = "respond w (length (issued w))"
  have l': "l' = (if failed ?r then l
      else l\<lparr>durations := durations l @ [int (elapsed ?r)],
             DataPoints := DataPoints l @
               [\<lparr>Timestamp = now w', Values = latency_summary (durations l @ [int (elapsed ?r)])\<rparr>]\<rparr>)"
    and w': "respond w' = respond w" "issued w' = issued w @
        [\<lparr>req_url = latency_url l,
          req_timeout = (if latency_timeout l = 0 then None else Some (latency_timeout l))\<rparr>]"
    using assms
    by (auto simp: execution_LatencyMetric_measure_def LatencyMetric_writeMetric_eq probe_def
        Let_def split: if_splits)
  show "respond w' = respond w" by (rule w'(1))
  show "length (issued w') = Suc (length (issued w))" by (simp add: w'(2))
  show "durations l' = durations l @ successful_durations (respond w) (length (issued w)) 1"
    by (simp add: l' successful_durations_def)
  show "cumulative l \<Longrightarrow> cumulative l'"
    using cumulative_extend [where l = l and d = "int (elapsed ?r)" and t = "now w'"]
    by (simp add: l')
qed

lemma successful_durations_Suc:
  "successful_durations answers k (Suc n) =
     successful_durations answers k 1 @ successful_durations answers (Suc k) n"
proof -
  have a: "[k ..< k + Suc n] = k # [Suc k ..< Suc k + n]"
    by (simp add: upt_conv_Cons)
  have b: "[k ..< k + 1] = [k]"
    by simp
  show ?thesis
    unfolding successful_durations_def a b by simp
qed

lemma latency_loop:
  assumes step: "\<And>w l w' l'. body w l = (w', l') \<Longrightarrow>
      respond w' = respond w \<and> length (issued w') = Suc (length (issued w)) \<and>
      durations l' = durations l @ successful_durations (respond w) (length (issued w)) 1 \<and>
      (cumulative l \<longrightarrow> cumulative l')"
  shows "ticker_loop (\<lambda>w l. Inr (body w l)) ticks w l = Inr (w', l') \<Longrightarrow>
     cumulative l \<Longrightarrow>
     cumulative l' \<and>
     durations l' =
       durations l @ successful_durations (respond w) (length (issued w)) (length ticks)"
proof (induction ticks arbitrary: w l)
  case Nil
  then show ?case by (simp add: successful_durations_def)
next
  case (Cons wait ticks)
  obtain w1 l1 where m: "body (w\<lparr>now := now w + wait\<rparr>) l = (w1, l1)"
    by (cases "body (w\<lparr>now := now w + wait\<rparr>) l")
  from step [OF m] have s: "respond w1 = respond w"
    "length (issued w1) = Suc (length (issued w))"
    "durations l1 = durations l @ successful_durations (respond w) (length (issued w)) 1"
    "cumulative l1"
    using Cons.prems(2) by simp_all
  have rest: "ticker_loop (\<lambda>w l. Inr (body w l)) ticks w1 l1 = Inr (w', l')"
    using Cons.prems(1) m by simp
  have split: "successful_durations (respond w) (length (issued w)) (length (wait # ticks)) =
      successful_durations (respond w) (length (issued w)) 1 @
      successful_durations (respond w) (Suc (length (issued w))) (length ticks)"
    using successful_durations_Suc [of "respond w" "length (issued w)" "length ticks"]
    by simp
  from Cons.IH [OF rest s(4)] have "cumulative l'"
    and "durations l' =
      durations l1 @ successful_durations (respond w1) (length (issued w1)) (length ticks)"
    by simp_all
  then show ?case
    by (simp only: s split append_assoc simp_thms)
qed

lemma ticker_loop_returns:
  "\<exists>w' m'. ticker_loop (\<lambda>w m. Inr (body w m)) ticks w m = Inr (w', m')"
proof (induction ticks arbitrary: w m)
  case Nil
  show ?case by simp
next
  case (Cons wait ticks)
  obtain w1 m1 where "body (w\<lparr>now := now w + wait\<rparr>) m = (w1, m1)"
    by (cases "body (w\<lparr>now := now w + wait\<rparr>) m")
  then show ?case using Cons.IH [of w1 m1] by simp
qed

text \<open>
  Claim C10. A latency collector's \<^verbatim>\<open>Measure\<close> returns for every positive interval. After
  it has run any number of ticks from the collector's construction, the durations are
  those of the successful probes of the run, there is one DataPoint per successful probe,
  the \<open>i\<close>-th DataPoint stores the min/p10/p50/p90/max percentiles of the first \<open>i + 1\<close>
  durations, and the most recent DataPoint stores the percentiles over every successful
  probe of the run.
\<close>

theorem latency_DataPoints_cumulative:
  "(0 < interval \<longrightarrow>
      (\<exists>w' l. consensus_LatencyMetric_Measure ticks w
                 (NewLatencyMetric url name interval conds) = Inr (w', l)) \<and>
      (\<exists>w' l. execution_LatencyMetric_Measure ticks w
                 (NewLatencyMetric url name interval conds) = Inr (w', l))) \<and>
   (consensus_LatencyMetric_Measure ticks w (NewLatencyMetric url name interval conds)
      = Inr (w', l) \<or>
    execution_LatencyMetric_Measure ticks w (NewLatencyMetric url name interval conds)
      = Inr (w', l) \<longrightarrow>
      durations l = successful_durations (respond w) (length (issued w)) (length ticks) \<and>
      length (DataPoints l) = length (durations l) \<and>
      (\<forall>i < length (DataPoints l).
         Values (DataPoints l ! i) = latency_summary (take (Suc i) (durations l))) \<and>
      (DataPoints l \<noteq> [] \<longrightarrow>
         Values (last (DataPoints l)) = latency_summary (durations l)))"
proof (intro conjI impI)
  let ?l0 = "NewLatencyMetric url name interval conds"
  assume "0 < interval"
  then have i: "\<not> latency_interval ?l0 \<le> 0"
    by (simp add: NewLatencyMetric_def)
  show "\<exists>w' l. consensus_LatencyMetric_Measure ticks w ?l0 = Inr (w', l)"
    using ticker_loop_returns [of consensus_LatencyMetric_measure ticks w ?l0] i
    by (simp add: consensus_LatencyMetric_Measure_def Measure_loop_def)
  show "\<exists>w' l. execution_LatencyMetric_Measure ticks w ?l0 = Inr (w', l)"
    using ticker_loop_returns [of execution_LatencyMetric_measure ticks w ?l0] i
    by (simp add: execution_LatencyMetric_Measure_def Measure_loop_def)
next
  let ?l0 = "NewLatencyMetric url name interval conds"
  assume run: "consensus_LatencyMetric_Measure ticks w ?l0 = Inr (w', l) \<or>
               execution_LatencyMetric_Measure ticks w ?l0 = Inr (w', l)"
  have init: "cumulative ?l0" "durations ?l0 = []"
    by (simp_all add: cumulative_def NewLatencyMetric_def)
  have "cumulative l \<and>
      durations l = durations ?l0 @
        successful_durations (respond w) (length (issued w)) (length ticks)"
    using run
  proof
    assume "consensus_LatencyMetric_Measure ticks w ?l0 = Inr (w', l)"
    then have "ticker_loop (\<lambda>w l. Inr (consensus_LatencyMetric_measure w l)) ticks w ?l0
        = Inr (w', l)"
      by (simp add: consensus_LatencyMetric_Measure_def Measure_loop_def split: if_splits)
    then show ?thesis
      using latency_loop [of consensus_LatencyMetric_measure ticks w ?l0 w' l]
        consensus_LatencyMetric_measure_step init(1)
      by blast
  next
    assume "execution_LatencyMetric_Measure ticks w ?l0 = Inr (w', l)"
    then have "ticker_loop (\<lambda>w l. Inr (execution_LatencyMetric_measure w l)) ticks w ?l0
        = Inr (w', l)"
      by (simp add: execution_LatencyMetric_Measure_def Measure_loop_def split: if_splits)
    then show ?thesis
      using latency_loop [of execution_LatencyMetric_measure ticks w ?l0 w' l]
        execution_LatencyMetric_measure_step init(1)
      by blast
  qed
  then have c: "cumulative l"
    and d: "durations l = successful_durations (respond w) (length (issued w)) (length ticks)"
    by (simp_all add: init(2))
  show "durations l = successful_durations (respond w) (length (issued w)) (length ticks)"
    by (rule d)
  show len: "length (DataPoints l) = length (durations l)"
    using c by (simp add: cumulative_def)
  show each: "\<forall>i < length (DataPoints l).
      Values (DataPoints l ! i) = latency_summary (take (Suc i) (durations l))"
    using c by (simp add: cumulative_def list_all_iff)
  assume ne: "DataPoints l \<noteq> []"
  then have "length (DataPoints l) - 1 < length (DataPoints l)" by simp
  with each have "Values (DataPoints l ! (length (DataPoints l) - 1)) =
      latency_summary (take (Suc (length (DataPoints l) - 1)) (durations l))"
    by blast
  then show "Values (last (DataPoints l)) = latency_summary (durations l)"
    using ne len by (simp add: last_conv_nth)
qed

theorem latency_DataPoints_cumulative_witness:
  "durations (snd (projr (execution_LatencyMetric_Measure [3000000000, 3000000000, 3000000000]
      (fresh_world [answered [] 7000000, refused, answered [] 3000000] refused)
      (NewLatencyMetric ''geth:8545'' ''Latency'' 3000000000 []))))
     = [7000000, 3000000] \<and>
   length (DataPoints (snd (projr (execution_LatencyMetric_Measure
      [3000000000, 3000000000, 3000000000]
      (fresh_world [answered [] 7000000, refused, answered [] 3000000] refused)
      (NewLatencyMetric ''geth:8545'' ''Latency'' 3000000000 []))))) = 2 \<and>
   Values (last (DataPoints (snd (projr (execution_LatencyMetric_Measure
      [3000000000, 3000000000, 3000000000]
      (fresh_world [answered [] 7000000, refused, answered [] 3000000] refused)
      (NewLatencyMetric ''geth:8545'' ''Latency'' 3000000000 []))))))
     = [DurationMinMeasurement \<mapsto> 3000000, DurationP10Measurement \<mapsto> 3000000,
        DurationP50Measurement \<mapsto> 3000000, DurationP90Measurement \<mapsto> 7000000,
        DurationMaxMeasurement \<mapsto> 7000000]"
proof -
  let ?w = "fresh_world [answered [] 7000000, refused, answered [] 3000000] refused"
  let ?l0 = "NewLatencyMetric ''geth:8545'' ''Latency'' 3000000000 []"
  let ?ticks = "[3000000000, 3000000000, 3000000000] :: nat list"
  let ?M = "execution_LatencyMetric_Measure ?ticks ?w ?l0"
  note t = latency_DataPoints_cumulative
    [where interval = 3000000000 and ticks = ?ticks and w = ?w and url = "''geth:8545''"
       and name = "''Latency''" and conds = "[]"
       and w' = "fst (projr ?M)" and l = "snd (projr ?M)"]
  have ret: "?M = Inr (fst (projr ?M), snd (projr ?M))"
    using t by auto
  have upt3: "[0 ..< 3] = [0, 1, 2 :: nat]"
    by (simp add: upt_rec)
  have sd: "successful_durations (respond ?w) (length (issued ?w)) (length ?ticks)
      = [7000000, 3000000]"
    by (simp add: successful_durations_def fresh_world_def replies_def answered_def
        refused_def upt3)
  have d: "durations (snd (projr ?M)) = [7000000, 3000000]"
    using t ret sd by simp
  have n: "length (DataPoints (snd (projr ?M))) = 2"
    using t ret d by simp
  then have "DataPoints (snd (projr ?M)) \<noteq> []"
    by auto
  then have "Values (last (DataPoints (snd (projr ?M)))) = latency_summary [7000000, 3000000]"
    using t ret d by simp
  then have v: "Values (last (DataPoints (snd (projr ?M)))) =
      [DurationMinMeasurement \<mapsto> 3000000, DurationP10Measurement \<mapsto> 3000000,
       DurationP50Measurement \<mapsto> 3000000, DurationP90Measurement \<mapsto> 7000000,
       DurationMaxMeasurement \<mapsto> 7000000]"
    by (simp add: latency_summary_def percentile_def nearest_rank_def)
  show ?thesis using d n v by blast
qed

section \<open>Properties of the execution peer collector\<close>

lemma execution_PeerMetric_measure_step:
  assumes "execution_PeerMetric_measure w p = Inr (w', p')"
  shows "respond w' = respond w"
    and "length (issued w') = Suc (length (issued w))"
    and "measuringErrors p' =
           (if empty_result (respond w (length (issued w)))
            then (measuringErrors p)(execution_PeerCountMeasurement \<mapsto> empty_count_error)
            else measuringErrors p)"
  using assms
  by (auto simp: execution_PeerMetric_measure_def execution_PeerMetric_writeMetric_def
      AddDataPoint_def probe_def Let_def empty_result_def empty_count_error_def
      split: if_splits option.splits)

lemma errors_known_step:
  assumes "execution_PeerMetric_measure w p = Inr (w', p')"
    and "errors_known (measuringErrors p)"
  shows "errors_known (measuringErrors p')"
  using assms(2) unfolding execution_PeerMetric_measure_step(3) [OF assms(1)] errors_known_def
  by auto

lemma peer_loop:
  "ticker_loop execution_PeerMetric_measure ticks w p = Inr (w', p') \<Longrightarrow>
   errors_known (measuringErrors p) \<Longrightarrow>
   errors_known (measuringErrors p') \<and>
   (measuringErrors p execution_PeerCountMeasurement = Some empty_count_error \<or>
    list_ex (\<lambda>k. empty_result (respond w (length (issued w) + k))) [0 ..< length ticks]
    \<longrightarrow> measuringErrors p' execution_PeerCountMeasurement = Some empty_count_error)"
proof (induction ticks arbitrary: w p)
  case Nil
  then show ?case by simp
next
  case (Cons wait ticks)
  let ?w = "w\<lparr>now := now w + wait\<rparr>"
  obtain w1 p1 where m: "execution_PeerMetric_measure ?w p = Inr (w1, p1)"
    and rest: "ticker_loop execution_PeerMetric_measure ticks w1 p1 = Inr (w', p')"
    using Cons.prems(1) by (auto split: sum.splits)
  note s = execution_PeerMetric_measure_step [OF m]
  have k1: "errors_known (measuringErrors p1)"
    using errors_known_step [OF m Cons.prems(2)] .
  note ih = Cons.IH [OF rest k1]
  have first: "empty_result (respond w (length (issued w))) \<Longrightarrow>
      measuringErrors p1 execution_PeerCountMeasurement = Some empty_count_error"
    using s(3) by simp
  have kept: "measuringErrors p execution_PeerCountMeasurement = Some empty_count_error \<Longrightarrow>
      measuringErrors p1 execution_PeerCountMeasurement = Some empty_count_error"
    using s(3) by simp
  have later: "list_ex (\<lambda>k. empty_result (respond w (length (issued w) + k)))
        [0 ..< length (wait # ticks)] \<Longrightarrow>
      empty_result (respond w (length (issued w))) \<or>
      list_ex (\<lambda>k. empty_result (respond w1 (length (issued w1) + k))) [0 ..< length ticks]"
  proof -
    assume "list_ex (\<lambda>k. empty_result (respond w (length (issued w) + k)))
        [0 ..< length (wait # ticks)]"
    then obtain k where "k \<in> set [0 ..< length (wait # ticks)]"
      and k2: "empty_result (respond w (length (issued w) + k))"
      unfolding list_ex_iff by blast
    then have k1: "k < Suc (length ticks)"
      by auto
    note k = k1 k2
    show ?thesis
    proof (cases k)
      case 0
      then show ?thesis using k by simp
    next
      case (Suc j)
      then have "j < length ticks" "empty_result (respond w1 (length (issued w1) + j))"
        using k s by simp_all
      then show ?thesis by (auto simp: list_ex_iff)
    qed
  qed
  show ?case
    using ih first kept later by blast
qed

lemma first_visited_single:
  "k \<in> set visit \<Longrightarrow> first_visited visit [k \<mapsto> v] = Some (k, v)"
  by (induction visit) auto

lemma first_visited_empty: "first_visited visit Map.empty = None"
  by (induction visit) auto

text \<open>
  Claim C9. If the execution peer collector met an empty \<^verbatim>\<open>net_peerCount\<close> result at any
  tick of a run that its \<^verbatim>\<open>Measure\<close> returned from, then \<^verbatim>\<open>AggregateResults\<close> returns the
  message of the stored error (the measuring error joined with the reason), whatever the
  order in which \<^verbatim>\<open>range\<close> visits the map of measuring errors, and not the percentile
  summary.
\<close>

theorem measuring_error_is_reported:
  assumes "execution_PeerMetric_Measure ticks w
             (execution_NewPeerMetric url name interval conds) = Inr (w', p)"
    and "k < length ticks"
    and "empty_result (respond w (length (issued w) + k))"
    and "execution_PeerCountMeasurement \<in> set visit"
  shows "execution_PeerMetric_AggregateResults FormatPercentiles visit p =
           ''UNABLE_TO_MEASURE'' @ [CHR 0x0A] @
           ''peer count RPC response was empty. Most likely net_peerCount RPC method is not supported''"
proof -
  let ?p0 = "execution_NewPeerMetric url name interval conds"
  have loop: "ticker_loop execution_PeerMetric_measure ticks w ?p0 = Inr (w', p)"
    using assms(1)
    by (simp add: execution_PeerMetric_Measure_def Measure_loop_def split: if_splits)
  have k0: "errors_known (measuringErrors ?p0)"
    by (simp add: errors_known_def execution_NewPeerMetric_def)
  have ex: "list_ex (\<lambda>k. empty_result (respond w (length (issued w) + k))) [0 ..< length ticks]"
    using assms(2,3) by (auto simp: list_ex_iff)
  from peer_loop [OF loop k0] ex
  have "errors_known (measuringErrors p)"
    and "measuringErrors p execution_PeerCountMeasurement = Some empty_count_error"
    by simp_all
  then have "measuringErrors p = [execution_PeerCountMeasurement \<mapsto> empty_count_error]"
    by (auto simp: errors_known_def)
  then show ?thesis
    using assms(4)
    by (simp add: execution_PeerMetric_AggregateResults_def first_visited_single
        empty_count_error_def errors_Join_def measuringErr_def)
qed

text \<open>
  \<^verbatim>\<open>AggregateResults\<close> writes nothing: calling it leaves the collector as it is. What a
  second call of the execution peer collector's \<^verbatim>\<open>AggregateResults\<close> can do differently
  is the order in which \<^verbatim>\<open>range\<close> visits the map of measuring errors. After \<^verbatim>\<open>Measure\<close>
  has returned, two calls return the same string whatever the two orders are (each order
  lists every key of the map), and the consensus peer collector's \<^verbatim>\<open>AggregateResults\<close>
  is the rendering of the percentiles of the stored counts.
\<close>

lemma peer_AggregateResults_any_order:
  assumes "execution_PeerMetric_Measure ticks w
             (execution_NewPeerMetric url name interval conds) = Inr (w', p)"
    and "dom (measuringErrors p) \<subseteq> set first_order"
    and "dom (measuringErrors p) \<subseteq> set second_order"
  shows "execution_PeerMetric_AggregateResults FormatPercentiles first_order p =
         execution_PeerMetric_AggregateResults FormatPercentiles second_order p \<and>
         consensus_PeerMetric_AggregateResults FormatPercentiles q =
           FormatPercentiles
             (percentile (map (\<lambda>point. at_key (Values point) consensus_PeerCountMeasurement)
                            (DataPoints q)) 0)
             (percentile (map (\<lambda>point. at_key (Values point) consensus_PeerCountMeasurement)
                            (DataPoints q)) 10)
             (percentile (map (\<lambda>point. at_key (Values point) consensus_PeerCountMeasurement)
                            (DataPoints q)) 50)
             (percentile (map (\<lambda>point. at_key (Values point) consensus_PeerCountMeasurement)
                            (DataPoints q)) 90)
             (percentile (map (\<lambda>point. at_key (Values point) consensus_PeerCountMeasurement)
                            (DataPoints q)) 100)"
proof
  let ?p0 = "execution_NewPeerMetric url name interval conds"
  have loop: "ticker_loop execution_PeerMetric_measure ticks w ?p0 = Inr (w', p)"
    using assms(1)
    by (simp add: execution_PeerMetric_Measure_def Measure_loop_def split: if_splits)
  have k0: "errors_known (measuringErrors ?p0)"
    by (simp add: errors_known_def execution_NewPeerMetric_def)
  from peer_loop [OF loop k0] have "errors_known (measuringErrors p)"
    by simp
  then consider "measuringErrors p = Map.empty"
    | "measuringErrors p = [execution_PeerCountMeasurement \<mapsto> empty_count_error]"
    by (auto simp: errors_known_def)
  then show "execution_PeerMetric_AggregateResults FormatPercentiles first_order p =
         execution_PeerMetric_AggregateResults FormatPercentiles second_order p"
  proof cases
    case 1
    then show ?thesis
      by (simp add: execution_PeerMetric_AggregateResults_def first_visited_empty)
  next
    case 2
    then have "execution_PeerCountMeasurement \<in> set first_order"
      and "execution_PeerCountMeasurement \<in> set second_order"
      using assms(2,3) by auto
    then show ?thesis
      using 2 by (simp add: execution_PeerMetric_AggregateResults_def first_visited_single)
  qed
next
  show "consensus_PeerMetric_AggregateResults FormatPercentiles q =
           FormatPercentiles
             (percentile (map (\<lambda>point. at_key (Values point) consensus_PeerCountMeasurement)
                            (DataPoints q)) 0)
             (percentile (map (\<lambda>point. at_key (Values point) consensus_PeerCountMeasurement)
                            (DataPoints q)) 10)
             (percentile (map (\<lambda>point. at_key (Values point) consensus_PeerCountMeasurement)
                            (DataPoints q)) 50)
             (percentile (map (\<lambda>point. at_key (Values point) consensus_PeerCountMeasurement)
                            (DataPoints q)) 90)
             (percentile (map (\<lambda>point. at_key (Values point) consensus_PeerCountMeasurement)
                            (DataPoints q)) 100)"
    by (simp add: consensus_PeerMetric_AggregateResults_def Let_def at_key_CalculatePercentiles)
qed

text \<open>
  The execution peer collector's \<^verbatim>\<open>Measure\<close> returns when its interval is positive, its
  address parses and no RPC result among its ticks is a single character.
\<close>

lemma execution_PeerMetric_Measure_returns:
  assumes "0 < interval"
    and "parses w url"
    and "\<not> list_ex (\<lambda>k. \<not> failed (respond w (length (issued w) + k)) \<and>
                       status (respond w (length (issued w) + k)) = 200 \<and>
                       (\<exists>hex. decoded (respond w (length (issued w) + k)) = Some hex \<and>
                              length hex = 1))
            [0 ..< length ticks]"
  shows "\<exists>w' p. execution_PeerMetric_Measure ticks w
                   (execution_NewPeerMetric url name interval conds) = Inr (w', p)"
proof -
  have loop: "parses w (peer_url p) \<Longrightarrow>
      \<forall>k < length ticks. \<not> (\<not> failed (respond w (length (issued w) + k)) \<and>
                       status (respond w (length (issued w) + k)) = 200 \<and>
                       (\<exists>hex. decoded (respond w (length (issued w) + k)) = Some hex \<and>
                              length hex = 1)) \<Longrightarrow>
      \<exists>w' p'. ticker_loop execution_PeerMetric_measure ticks w p = Inr (w', p')"
    for p
  proof (induction ticks arbitrary: w p)
    case Nil
    show ?case by simp
  next
    case (Cons wait ticks)
    let ?w = "w\<lparr>now := now w + wait\<rparr>"
    have "\<not> (\<not> failed (respond ?w (length (issued ?w))) \<and>
            status (respond ?w (length (issued ?w))) = 200 \<and>
            (\<exists>hex. decoded (respond ?w (length (issued ?w))) = Some hex \<and> length hex = 1))"
      using Cons.prems(2) [rule_format, of 0] by simp
    then obtain w1 p1 where m: "execution_PeerMetric_measure ?w p = Inr (w1, p1)"
      using execution_PeerMetric_measure_returns [of ?w p] Cons.prems(1) by auto
    note s = execution_PeerMetric_measure_step [OF m]
    have url: "peer_url p1 = peer_url p" and ps: "parses w1 = parses w"
      using m
      by (auto simp: execution_PeerMetric_measure_def execution_PeerMetric_writeMetric_def
          AddDataPoint_def probe_def Let_def split: if_splits option.splits)
    have "\<forall>k < length ticks. \<not> (\<not> failed (respond w1 (length (issued w1) + k)) \<and>
                       status (respond w1 (length (issued w1) + k)) = 200 \<and>
                       (\<exists>hex. decoded (respond w1 (length (issued w1) + k)) = Some hex \<and>
                              length hex = 1))"
    proof (intro allI impI)
      fix k assume "k < length ticks"
      then have "Suc k < length (wait # ticks)" by simp
      from Cons.prems(2) [rule_format, OF this] show
        "\<not> (\<not> failed (respond w1 (length (issued w1) + k)) \<and>
            status (respond w1 (length (issued w1) + k)) = 200 \<and>
            (\<exists>hex. decoded (respond w1 (length (issued w1) + k)) = Some hex \<and>
                   length hex = 1))"
        using s by simp
    qed
    then obtain w' p' where "ticker_loop execution_PeerMetric_measure ticks w1 p1 = Inr (w', p')"
      using Cons.IH [of w1 p1] Cons.prems(1) url ps by auto
    then show ?case using m by simp
  qed
  have "\<forall>k < length ticks. \<not> (\<not> failed (respond w (length (issued w) + k)) \<and>
                       status (respond w (length (issued w) + k)) = 200 \<and>
                       (\<exists>hex. decoded (respond w (length (issued w) + k)) = Some hex \<and>
                              length hex = 1))"
    using assms(3) by (auto simp: list_ex_iff)
  then show ?thesis
    using loop [of "execution_NewPeerMetric url name interval conds"] assms(1,2)
    by (simp add: execution_PeerMetric_Measure_def Measure_loop_def execution_NewPeerMetric_def)
qed

lemmas peer_run_defs =
  execution_PeerMetric_Measure_def Measure_loop_def execution_PeerMetric_measure_def
  execution_PeerMetric_writeMetric_def ParseInt_16_64_def hex_digit_def Second_def
  fixture_defs

theorem measuring_error_is_reported_witness:
  "execution_PeerMetric_AggregateResults plain_format [execution_PeerCountMeasurement]
     (snd (projr (execution_PeerMetric_Measure [10000000000, 10000000000, 10000000000]
        (fresh_world [answered ''0x19'' 5, answered [] 5, answered ''0xa'' 5] refused)
        (enabled_execution_PeerMetric ''http://geth:8545''))))
   = ''UNABLE_TO_MEASURE'' @ [CHR 0x0A] @
     ''peer count RPC response was empty. Most likely net_peerCount RPC method is not supported''"
proof -
  let ?w = "fresh_world [answered ''0x19'' 5, answered [] 5, answered ''0xa'' 5] refused"
  let ?ticks = "[10000000000, 10000000000, 10000000000] :: nat list"
  let ?M = "execution_PeerMetric_Measure ?ticks ?w (enabled_execution_PeerMetric ''http://geth:8545'')"
  have ret: "execution_PeerMetric_Measure ?ticks ?w
      (execution_NewPeerMetric ''http://geth:8545'' ''Peers'' (Second * 10)
         execution_peers_conditions) = Inr (fst (projr ?M), snd (projr ?M))"
    by (simp add: peer_run_defs)
  have k: "(1::nat) < length ?ticks"
    by simp
  have e: "empty_result (respond ?w (length (issued ?w) + 1))"
    by (simp add: empty_result_def fixture_defs)
  have v: "execution_PeerCountMeasurement \<in> set [execution_PeerCountMeasurement]"
    by simp
  show ?thesis
    using measuring_error_is_reported [OF ret k e v, of plain_format] .
qed

section \<open>Probe timeouts\<close>

lemma bit_length_bounds:
  "0 < m \<Longrightarrow> 2 ^ (bit_length m - 1) \<le> m \<and> m < 2 ^ bit_length m"
proof (induction m rule: bit_length.induct)
  case (1 n)
  show ?case
  proof (cases "n div 2 = 0")
    case True
    then have "n = 1" using "1.prems" by auto
    then show ?thesis
      by (simp add: bit_length.simps [of "Suc 0"] bit_length.simps [of 0])
  next
    case False
    then have pos: "0 < n div 2" by simp
    have n0: "n \<noteq> 0" using "1.prems" by simp
    from "1.IH" [OF n0 pos]
    have lo: "2 ^ (bit_length (n div 2) - 1) \<le> n div 2"
      and hi: "n div 2 < 2 ^ bit_length (n div 2)" by simp_all
    have bl: "bit_length n = Suc (bit_length (n div 2))"
      using n0 by (simp add: bit_length.simps [of n])
    have blpos: "0 < bit_length (n div 2)"
      using pos by (simp add: bit_length.simps [of "n div 2"])
    have "(2::nat) ^ (bit_length n - 1) = 2 * 2 ^ (bit_length (n div 2) - 1)"
      using bl blpos by (cases "bit_length (n div 2)") simp_all
    then have a: "2 ^ (bit_length n - 1) \<le> n"
      using lo by linarith
    have b: "n < 2 ^ bit_length n"
      using hi bl by simp
    show ?thesis using a b by simp
  qed
qed

lemma round_half_even_error:
  "2 * round_half_even k m \<le> 2 * m + 2 ^ k \<and> 2 * m \<le> 2 * round_half_even k m + 2 ^ k"
proof -
  define u :: nat where "u = 2 ^ k"
  define lo where "lo = m div u"
  define r where "r = m mod u"
  have m: "m = lo * u + r"
    using div_mult_mod_eq [of m u] by (simp add: lo_def r_def)
  have r: "r < u"
    by (simp add: r_def u_def)
  have "round_half_even k m = lo * u \<and> 2 * r \<le> u \<or>
        round_half_even k m = lo * u + u \<and> u \<le> 2 * r"
    unfolding round_half_even_def Let_def u_def [symmetric] lo_def [symmetric] r_def [symmetric]
    by auto
  then show ?thesis
    unfolding u_def [symmetric] using m r by auto
qed

lemma round_float64_error:
  "2 ^ 53 * round_float64 m \<le> (2 ^ 53 + 1) * m \<and>
   2 ^ 53 * m \<le> 2 ^ 53 * round_float64 m + m"
proof (cases "m < 2 ^ 53")
  case True
  then show ?thesis by (simp add: round_float64_def)
next
  case False
  define k where "k = bit_length m - 53"
  have pos: "0 < m" using False by auto
  from bit_length_bounds [OF pos]
  have lo: "2 ^ (bit_length m - 1) \<le> m" and hi: "m < 2 ^ bit_length m" by simp_all
  have "\<not> bit_length m \<le> 53"
  proof
    assume "bit_length m \<le> 53"
    then have "(2::nat) ^ bit_length m \<le> 2 ^ 53"
      by (rule power_increasing) simp
    with hi False show False by linarith
  qed
  then have "53 < bit_length m"
    by simp
  then have "bit_length m - 1 = k + 52"
    by (simp add: k_def)
  then have "(2::nat) ^ k * 2 ^ 52 \<le> m"
    using lo by (simp add: power_add)
  then have big: "2 ^ 52 * (2::nat) ^ k \<le> m"
    by (simp add: mult.commute)
  have v: "round_float64 m = round_half_even k m"
    using False by (simp add: round_float64_def k_def)
  from round_half_even_error [of k m]
  have e1: "2 * round_half_even k m \<le> 2 * m + 2 ^ k"
    and e2: "2 * m \<le> 2 * round_half_even k m + 2 ^ k" by simp_all
  show ?thesis
    unfolding v using e1 e2 big by auto
qed

lemma three_quarters_bounds:
  assumes "2 \<le> d"
  shows "0 < three_quarters d" and "three_quarters d \<le> d"
proof -
  define i where "i = nat \<bar>d\<bar>"
  define r where "r = round_float64 i"
  define y where "y = round_float64 (3 * r)"
  have i: "2 \<le> i" "int i = d" using assms by (simp_all add: i_def)
  have tq: "three_quarters d = int (y div 4)"
    using assms by (simp add: three_quarters_def y_def r_def i_def)
  from round_float64_error [of i]
  have r1: "2 ^ 53 * r \<le> (2 ^ 53 + 1) * i" and r2: "2 ^ 53 * i \<le> 2 ^ 53 * r + i"
    by (simp_all add: r_def)
  from round_float64_error [of "3 * r"]
  have y1: "2 ^ 53 * y \<le> (2 ^ 53 + 1) * (3 * r)"
    and y2: "2 ^ 53 * (3 * r) \<le> 2 ^ 53 * y + 3 * r"
    by (simp_all add: y_def)
  have up: "y \<le> 4 * i"
    using r1 y1 by simp
  have low: "4 \<le> y"
    using r2 y2 i(1) by simp
  show "0 < three_quarters d"
    using low by (simp add: tq)
  show "three_quarters d \<le> d"
    using up i(2) by (simp add: tq)
qed

lemma concat_replicate_single: "concat (replicate n [x]) = replicate n x"
  by (induction n) simp_all

lemma ticker_loop_issued:
  assumes step: "\<And>w m w' m'. body w m = Inr (w', m') \<Longrightarrow> I m \<Longrightarrow>
      I m' \<and> issued w' = issued w @ rqs"
  shows "ticker_loop body ticks w m = Inr (w', m') \<Longrightarrow> I m \<Longrightarrow>
     I m' \<and> issued w' = issued w @ concat (replicate (length ticks) rqs)"
proof (induction ticks arbitrary: w m)
  case Nil
  then show ?case by simp
next
  case (Cons wait ticks)
  obtain w1 m1 where b: "body (w\<lparr>now := now w + wait\<rparr>) m = Inr (w1, m1)"
    and rest: "ticker_loop body ticks w1 m1 = Inr (w', m')"
    using Cons.prems(1) by (auto split: sum.splits)
  from step [OF b Cons.prems(2)] have i1: "I m1" and s1: "issued w1 = issued w @ rqs"
    by simp_all
  from Cons.IH [OF rest i1] show ?case
    by (simp add: s1)
qed

lemma consensus_LatencyMetric_measure_frame:
  assumes "consensus_LatencyMetric_measure w l = (w', l')"
  shows "latency_url l' = latency_url l" and "latency_timeout l' = latency_timeout l"
  using assms
  by (auto simp: consensus_LatencyMetric_measure_def LatencyMetric_writeMetric_def
      AddDataPoint_def probe_def Let_def split: if_splits)

lemma execution_LatencyMetric_measure_frame:
  assumes "execution_LatencyMetric_measure w l = (w', l')"
  shows "latency_url l' = latency_url l" and "latency_timeout l' = latency_timeout l"
  using assms
  by (auto simp: execution_LatencyMetric_measure_def LatencyMetric_writeMetric_def
      AddDataPoint_def probe_def Let_def split: if_splits)

lemma execution_PeerMetric_measure_frame:
  assumes "execution_PeerMetric_measure w p = Inr (w', p')"
  shows "peer_url p' = peer_url p" and "peer_interval p' = peer_interval p"
  using assms
  by (auto simp: execution_PeerMetric_measure_def execution_PeerMetric_writeMetric_def
      AddDataPoint_def probe_def Let_def split: if_splits option.splits)

lemma ClientMetric_tick_issued:
  assumes "ClientMetric_tick w c = (w', c')"
  shows "issued w' = issued w @
           [\<lparr>req_url = client_url c @ ''/eth/v1/node/health'', req_timeout = None\<rparr>,
            \<lparr>req_url = client_url c @ ''/eth/v1/node/version'', req_timeout = None\<rparr>,
            \<lparr>req_url = client_url c @ ''/eth/v1/node/syncing'', req_timeout = None\<rparr>,
            \<lparr>req_url = client_url c @ ''/eth/v1/node/health'', req_timeout = None\<rparr>]"
    and "client_url c' = client_url c"
proof -
  obtain w1 c1 where h: "measureNodeHealth w c = (w1, c1)" by (cases "measureNodeHealth w c")
  obtain w2 c2 where v: "measureNodeVersion w1 c1 = (w2, c2)" by (cases "measureNodeVersion w1 c1")
  obtain w3 c3 where s: "measureSyncStatus w2 c2 = (w3, c3)" by (cases "measureSyncStatus w2 c2")
  have l: "measureLatency w3 c3 = (w', c')"
    using assms h v s by (simp add: ClientMetric_tick_def)
  note hs = measureNodeHealth_tick [OF h] and vs = measureNodeVersion_tick [OF v]
    and ss = measureSyncStatus_tick [OF s] and ls = measureLatency_tick [OF l]
  show "issued w' = issued w @
           [\<lparr>req_url = client_url c @ ''/eth/v1/node/health'', req_timeout = None\<rparr>,
            \<lparr>req_url = client_url c @ ''/eth/v1/node/version'', req_timeout = None\<rparr>,
            \<lparr>req_url = client_url c @ ''/eth/v1/node/syncing'', req_timeout = None\<rparr>,
            \<lparr>req_url = client_url c @ ''/eth/v1/node/health'', req_timeout = None\<rparr>]"
    by (simp add: hs(1,3) vs(1,3) ss(1,3) ls(1))
  show "client_url c' = client_url c"
    by (simp add: hs(3) vs(3) ss(3) ls(3))
qed

text \<open>
  Claim C6, as amended. In a run of any number of ticks from its construction: a latency
  collector constructed with an interval of at least two nanoseconds sends every probe
  with a timeout of three quarters of its interval (as \<^verbatim>\<open>float64\<close> arithmetic gives it),
  which is positive and no larger than the interval; the execution peer collector sends
  every probe with a timeout of five seconds whatever its interval is, which is no larger
  than the interval exactly when the interval is at least five seconds, as the ten
  seconds \<^verbatim>\<open>LoadEnabledMetrics\<close> passes are; the consensus client collector sends four
  requests per tick and none carries a timeout.
\<close>

theorem probe_timeouts:
  "(2 \<le> interval \<and>
    (consensus_LatencyMetric_Measure ticks w (NewLatencyMetric url name interval conds)
       = Inr (w', l) \<or>
     execution_LatencyMetric_Measure ticks w (NewLatencyMetric url name interval conds)
       = Inr (w', l)) \<longrightarrow>
      issued w' = issued w @
        replicate (length ticks)
          \<lparr>req_url = url, req_timeout = Some (three_quarters interval)\<rparr> \<and>
      0 < three_quarters interval \<and> three_quarters interval \<le> interval) \<and>
   (execution_PeerMetric_Measure ticks w (execution_NewPeerMetric url name interval peer_conds)
      = Inr (w', p) \<longrightarrow>
      issued w' = issued w @
        replicate (length ticks) \<lparr>req_url = url, req_timeout = Some (5 * Second)\<rparr> \<and>
      peer_interval p = interval \<and>
      (5 * Second \<le> peer_interval p \<longleftrightarrow> 5000000000 \<le> interval)) \<and>
   peer_interval (enabled_execution_PeerMetric url) = 10 * Second \<and>
   (ClientMetric_Measure ticks w (NewClientMetric url name client_conds interval)
      = Inr (w', c) \<longrightarrow>
      issued w' = issued w @
        concat (replicate (length ticks)
          [\<lparr>req_url = url @ ''/eth/v1/node/health'', req_timeout = None\<rparr>,
           \<lparr>req_url = url @ ''/eth/v1/node/version'', req_timeout = None\<rparr>,
           \<lparr>req_url = url @ ''/eth/v1/node/syncing'', req_timeout = None\<rparr>,
           \<lparr>req_url = url @ ''/eth/v1/node/health'', req_timeout = None\<rparr>]))"
proof (intro conjI impI)
  let ?l0 = "NewLatencyMetric url name interval conds"
  let ?t = "three_quarters interval"
  let ?I = "\<lambda>l. latency_url l = url \<and> latency_timeout l = ?t"
  assume h: "2 \<le> interval \<and>
    (consensus_LatencyMetric_Measure ticks w ?l0 = Inr (w', l) \<or>
     execution_LatencyMetric_Measure ticks w ?l0 = Inr (w', l))"
  then have pos: "0 < ?t" and le: "?t \<le> interval"
    using three_quarters_bounds [of interval] by simp_all
  show "0 < ?t" by (rule pos)
  show "?t \<le> interval" by (rule le)
  have i0: "?I ?l0"
    by (simp add: NewLatencyMetric_def)
  from h have "consensus_LatencyMetric_Measure ticks w ?l0 = Inr (w', l) \<or>
      execution_LatencyMetric_Measure ticks w ?l0 = Inr (w', l)" by simp
  then have "issued w' = issued w @
      concat (replicate (length ticks) [\<lparr>req_url = url, req_timeout = Some ?t\<rparr>])"
  proof
    assume "consensus_LatencyMetric_Measure ticks w ?l0 = Inr (w', l)"
    then have loop: "ticker_loop (\<lambda>w l. Inr (consensus_LatencyMetric_measure w l)) ticks w ?l0
        = Inr (w', l)"
      by (simp add: consensus_LatencyMetric_Measure_def Measure_loop_def split: if_splits)
    have "?I l \<and> issued w' = issued w @
        concat (replicate (length ticks) [\<lparr>req_url = url, req_timeout = Some ?t\<rparr>])"
    proof (rule ticker_loop_issued [where I = ?I, OF _ loop i0])
      fix w m w' m'
      assume "Inr (consensus_LatencyMetric_measure w m) = Inr (w', m')" and "?I m"
      then show "?I m' \<and> issued w' = issued w @ [\<lparr>req_url = url, req_timeout = Some ?t\<rparr>]"
        using consensus_LatencyMetric_measure_tick(1) [of w m w' m']
          consensus_LatencyMetric_measure_frame [of w m w' m'] pos
        by simp
    qed
    then show ?thesis by simp
  next
    assume "execution_LatencyMetric_Measure ticks w ?l0 = Inr (w', l)"
    then have loop: "ticker_loop (\<lambda>w l. Inr (execution_LatencyMetric_measure w l)) ticks w ?l0
        = Inr (w', l)"
      by (simp add: execution_LatencyMetric_Measure_def Measure_loop_def split: if_splits)
    have "?I l \<and> issued w' = issued w @
        concat (replicate (length ticks) [\<lparr>req_url = url, req_timeout = Some ?t\<rparr>])"
    proof (rule ticker_loop_issued [where I = ?I, OF _ loop i0])
      fix w m w' m'
      assume "Inr (execution_LatencyMetric_measure w m) = Inr (w', m')" and "?I m"
      then show "?I m' \<and> issued w' = issued w @ [\<lparr>req_url = url, req_timeout = Some ?t\<rparr>]"
        using execution_LatencyMetric_measure_tick(1) [of w m w' m']
          execution_LatencyMetric_measure_frame [of w m w' m'] pos
        by simp
    qed
    then show ?thesis by simp
  qed
  then show "issued w' = issued w @
      replicate (length ticks) \<lparr>req_url = url, req_timeout = Some ?t\<rparr>"
    by (simp only: concat_replicate_single)
next
  let ?p0 = "execution_NewPeerMetric url name interval peer_conds"
  let ?I = "\<lambda>p. peer_url p = url \<and> peer_interval p = interval"
  assume m: "execution_PeerMetric_Measure ticks w ?p0 = Inr (w', p)"
  then have loop: "ticker_loop execution_PeerMetric_measure ticks w ?p0 = Inr (w', p)"
    by (simp add: execution_PeerMetric_Measure_def Measure_loop_def split: if_splits)
  have i0: "?I ?p0"
    by (simp add: execution_NewPeerMetric_def)
  have r: "?I p \<and> issued w' = issued w @
      concat (replicate (length ticks) [\<lparr>req_url = url, req_timeout = Some (5 * Second)\<rparr>])"
  proof (rule ticker_loop_issued [where I = ?I, OF _ loop i0])
    fix w m w' m'
    assume "execution_PeerMetric_measure w m = Inr (w', m')" and "?I m"
    then show "?I m' \<and> issued w' = issued w @
        [\<lparr>req_url = url, req_timeout = Some (5 * Second)\<rparr>]"
      using execution_PeerMetric_measure_tick(1) [of w m w' m']
        execution_PeerMetric_measure_frame [of w m w' m']
      by simp
  qed
  then show "issued w' = issued w @
      replicate (length ticks) \<lparr>req_url = url, req_timeout = Some (5 * Second)\<rparr>"
    by (simp only: concat_replicate_single)
  show i: "peer_interval p = interval"
    using r by simp
  show "5 * Second \<le> peer_interval p \<longleftrightarrow> 5000000000 \<le> interval"
    by (simp add: i Second_def)
next
  show "peer_interval (enabled_execution_PeerMetric url) = 10 * Second"
    by (simp add: enabled_execution_PeerMetric_def execution_NewPeerMetric_def)
next
  let ?c0 = "NewClientMetric url name client_conds interval"
  let ?I = "\<lambda>c. client_url c = url"
  assume "ClientMetric_Measure ticks w ?c0 = Inr (w', c)"
  then have loop: "ticker_loop (\<lambda>w c. Inr (ClientMetric_tick w c)) ticks w ?c0 = Inr (w', c)"
    by (simp add: ClientMetric_Measure_def Measure_loop_def split: if_splits)
  have i0: "?I ?c0"
    by (simp add: NewClientMetric_def)
  have "?I c \<and> issued w' = issued w @
      concat (replicate (length ticks)
          [\<lparr>req_url = url @ ''/eth/v1/node/health'', req_timeout = None\<rparr>,
           \<lparr>req_url = url @ ''/eth/v1/node/version'', req_timeout = None\<rparr>,
           \<lparr>req_url = url @ ''/eth/v1/node/syncing'', req_timeout = None\<rparr>,
           \<lparr>req_url = url @ ''/eth/v1/node/health'', req_timeout = None\<rparr>])"
  proof (rule ticker_loop_issued [where I = ?I, OF _ loop i0])
    fix w m w' m'
    assume "Inr (ClientMetric_tick w m) = Inr (w', m')" and "?I m"
    then show "?I m' \<and> issued w' = issued w @
          [\<lparr>req_url = url @ ''/eth/v1/node/health'', req_timeout = None\<rparr>,
           \<lparr>req_url = url @ ''/eth/v1/node/version'', req_timeout = None\<rparr>,
           \<lparr>req_url = url @ ''/eth/v1/node/syncing'', req_timeout = None\<rparr>,
           \<lparr>req_url = url @ ''/eth/v1/node/health'', req_timeout = None\<rparr>]"
      using ClientMetric_tick_issued [of w m w' m'] by simp
  qed
  then show "issued w' = issued w @
      concat (replicate (length ticks)
          [\<lparr>req_url = url @ ''/eth/v1/node/health'', req_timeout = None\<rparr>,
           \<lparr>req_url = url @ ''/eth/v1/node/version'', req_timeout = None\<rparr>,
           \<lparr>req_url = url @ ''/eth/v1/node/syncing'', req_timeout = None\<rparr>,
           \<lparr>req_url = url @ ''/eth/v1/node/health'', req_timeout = None\<rparr>])"
    by simp
qed

lemmas latency_run_defs =
  execution_LatencyMetric_Measure_def consensus_LatencyMetric_Measure_def Measure_loop_def
  execution_LatencyMetric_measure_def consensus_LatencyMetric_measure_def
  three_quarters_def round_float64_def Second_def fixture_defs

theorem probe_timeouts_witness:
  "issued (fst (projr (consensus_LatencyMetric_Measure [3000000000, 3000000000]
      (fresh_world [] refused) (NewLatencyMetric ''beacon:5052'' ''Latency'' 3000000000 []))))
     = [\<lparr>req_url = ''beacon:5052'', req_timeout = Some 2250000000\<rparr>,
        \<lparr>req_url = ''beacon:5052'', req_timeout = Some 2250000000\<rparr>] \<and>
   issued (fst (projr (execution_LatencyMetric_Measure [3000000000, 3000000000]
      (fresh_world [] refused) (NewLatencyMetric ''geth:8545'' ''Latency'' 3000000000 []))))
     = [\<lparr>req_url = ''geth:8545'', req_timeout = Some 2250000000\<rparr>,
        \<lparr>req_url = ''geth:8545'', req_timeout = Some 2250000000\<rparr>] \<and>
   issued (fst (projr (execution_PeerMetric_Measure [10000000000, 10000000000]
      (fresh_world [] refused)
      (execution_NewPeerMetric ''http://geth:8545'' ''Peers'' 10000000000 []))))
     = [\<lparr>req_url = ''http://geth:8545'', req_timeout = Some 5000000000\<rparr>,
        \<lparr>req_url = ''http://geth:8545'', req_timeout = Some 5000000000\<rparr>] \<and>
   map req_timeout (issued (fst (projr (ClientMetric_Measure [1000000000]
      (fresh_world [] refused)
      (NewClientMetric ''http://beacon:5052'' ''Client'' [] 1000000000)))))
     = [None, None, None, None]"
proof -
  let ?down = "fresh_world [] refused"
  let ?L = "consensus_LatencyMetric_Measure [3000000000, 3000000000] ?down
      (NewLatencyMetric ''beacon:5052'' ''Latency'' 3000000000 [])"
  let ?E = "execution_LatencyMetric_Measure [3000000000, 3000000000] ?down
      (NewLatencyMetric ''geth:8545'' ''Latency'' 3000000000 [])"
  let ?P = "execution_PeerMetric_Measure [10000000000, 10000000000] ?down
      (execution_NewPeerMetric ''http://geth:8545'' ''Peers'' 10000000000 [])"
  let ?C = "ClientMetric_Measure [1000000000] ?down
      (NewClientMetric ''http://beacon:5052'' ''Client'' [] 1000000000)"
  have retL: "?L = Inr (fst (projr ?L), snd (projr ?L))"
    by (simp add: latency_run_defs)
  have retE: "?E = Inr (fst (projr ?E), snd (projr ?E))"
    by (simp add: latency_run_defs)
  have retP: "?P = Inr (fst (projr ?P), snd (projr ?P))"
    by (simp add: peer_run_defs)
  have retC: "?C = Inr (fst (projr ?C), snd (projr ?C))"
    by (simp add: ClientMetric_Measure_def Measure_loop_def NewClientMetric_def
        split: prod.splits)
  have tq: "three_quarters 3000000000 = 2250000000"
    by (simp add: three_quarters_def round_float64_def)
  note tL = probe_timeouts
    [where interval = 3000000000 and ticks = "[3000000000, 3000000000]" and w = ?down
       and url = "''beacon:5052''" and name = "''Latency''" and conds = "[]"
       and w' = "fst (projr ?L)" and l = "snd (projr ?L)"]
  note tE = probe_timeouts
    [where interval = 3000000000 and ticks = "[3000000000, 3000000000]" and w = ?down
       and url = "''geth:8545''" and name = "''Latency''" and conds = "[]"
       and w' = "fst (projr ?E)" and l = "snd (projr ?E)"]
  note tP = probe_timeouts
    [where interval = 10000000000 and ticks = "[10000000000, 10000000000]" and w = ?down
       and url = "''http://geth:8545''" and name = "''Peers''" and peer_conds = "[]"
       and w' = "fst (projr ?P)" and p = "snd (projr ?P)"]
  note tC = probe_timeouts
    [where interval = 1000000000 and ticks = "[1000000000]" and w = ?down
       and url = "''http://beacon:5052''" and name = "''Client''" and client_conds = "[]"
       and w' = "fst (projr ?C)" and c = "snd (projr ?C)"]
  have 1: "issued (fst (projr ?L))
     = [\<lparr>req_url = ''beacon:5052'', req_timeout = Some 2250000000\<rparr>,
        \<lparr>req_url = ''beacon:5052'', req_timeout = Some 2250000000\<rparr>]"
    using tL retL tq by (simp add: fresh_world_def)
  have 2: "issued (fst (projr ?E))
     = [\<lparr>req_url = ''geth:8545'', req_timeout = Some 2250000000\<rparr>,
        \<lparr>req_url = ''geth:8545'', req_timeout = Some 2250000000\<rparr>]"
    using tE retE tq by (simp add: fresh_world_def)
  have 3: "issued (fst (projr ?P))
     = [\<lparr>req_url = ''http://geth:8545'', req_timeout = Some 5000000000\<rparr>,
        \<lparr>req_url = ''http://geth:8545'', req_timeout = Some 5000000000\<rparr>]"
    using tP retP by (simp add: fresh_world_def Second_def)
  have 4: "map req_timeout (issued (fst (projr ?C))) = [None, None, None, None]"
    using tC retC by (simp add: fresh_world_def)
  show ?thesis using 1 2 3 4 by blast
qed

text \<open>
  Claim C6, as stated, fails: an execution peer collector constructed with an interval of
  one second sends its probe with a timeout of five seconds; a latency collector
  constructed with an interval of one nanosecond gets a timeout of zero, which the HTTP
  client and the dialer take as no timeout; and the consensus client collector's four
  probes carry no timeout.
\<close>

theorem peer_probe_timeout_exceeds_interval:
  "map req_timeout (issued (fst (projr (execution_PeerMetric_measure (fresh_world [] refused)
      (execution_NewPeerMetric ''http://geth:8545'' ''Peers'' 1000000000 [])))))
     = [Some 5000000000] \<and>
   peer_interval (snd (projr (execution_PeerMetric_measure (fresh_world [] refused)
      (execution_NewPeerMetric ''http://geth:8545'' ''Peers'' 1000000000 []))))
     = 1000000000 \<and>
   map req_timeout (issued (fst (consensus_LatencyMetric_measure (fresh_world [] refused)
      (NewLatencyMetric ''beacon:5052'' ''Latency'' 1 [])))) = [None] \<and>
   map req_timeout (issued (fst (execution_LatencyMetric_measure (fresh_world [] refused)
      (NewLatencyMetric ''geth:8545'' ''Latency'' 1 [])))) = [None] \<and>
   map req_timeout (issued (fst (ClientMetric_tick (fresh_world [] refused)
      (NewClientMetric ''http://beacon:5052'' ''Client'' [] 1000000000))))
     = [None, None, None, None]"
  by (simp add: execution_PeerMetric_measure_def execution_PeerMetric_writeMetric_def
      consensus_LatencyMetric_measure_def execution_LatencyMetric_measure_def
      three_quarters_def round_float64_def ClientMetric_tick_def measureNodeHealth_def
      measureNodeVersion_def measureSyncStatus_def measureLatency_def
      fixture_defs Second_def)

section \<open>Properties of the evaluation in \<^verbatim>\<open>Service.Start\<close>\<close>

text \<open>
  Claim C3 fails on the code (a defect of the code). The execution latency collector, as
  \<^verbatim>\<open>LoadEnabledMetrics\<close> constructs it, run for three ticks against a node that refuses
  every connection, returns from \<^verbatim>\<open>Measure\<close> as it was constructed, with an empty store;
  its \<^verbatim>\<open>AggregateResults\<close> then panics with an index out of range, and \<^verbatim>\<open>Start\<close> with this
  metric enabled ends in that panic: no Record is added and nothing is rendered. The
  consensus latency collector with an empty store renders the zero values.
\<close>

theorem execution_latency_empty_store_panics:
  "(\<exists>w. execution_LatencyMetric_Measure [3000000000, 3000000000, 3000000000]
          (fresh_world [] refused) (enabled_LatencyMetric host)
        = Inr (w, enabled_LatencyMetric host)) \<and>
   DataPoints (enabled_LatencyMetric host) = [] \<and>
   execution_LatencyMetric_AggregateResults FormatPercentiles (enabled_LatencyMetric host)
     = Inl IndexOutOfRange \<and>
   Start_report
     [(ExecutionGroup,
       [execution_LatencyMetric_service FormatPercentiles (enabled_LatencyMetric host)])]
     empty_report = Inl IndexOutOfRange \<and>
   consensus_LatencyMetric_AggregateResults FormatPercentiles (enabled_LatencyMetric host)
     = FormatPercentiles 0 0 0 0 0"
proof (intro conjI)
  show "\<exists>w. execution_LatencyMetric_Measure [3000000000, 3000000000, 3000000000]
          (fresh_world [] refused) (enabled_LatencyMetric host)
        = Inr (w, enabled_LatencyMetric host)"
    by (simp add: latency_run_defs)
qed (simp_all add: enabled_LatencyMetric_def NewLatencyMetric_def
    execution_LatencyMetric_AggregateResults_def consensus_LatencyMetric_AggregateResults_def
    Start_report_def execution_LatencyMetric_service_def)

text \<open>
  Claim C4 fails on the code (the same defect). With the execution peers and latency
  collectors and the consensus peers collector enabled, and the execution latency
  collector's store empty as above, \<^verbatim>\<open>Start\<close> ends in the panic of the execution latency
  collector's \<^verbatim>\<open>AggregateResults\<close>: the consensus peers Record is never added and nothing
  is rendered. Without the latency collector both peers Records are added and the report
  is rendered once.
\<close>

theorem aggregate_panic_suppresses_other_records:
  "Start_report
     [(ExecutionGroup,
       [execution_PeerMetric_service FormatCounts visit (enabled_execution_PeerMetric address),
        execution_LatencyMetric_service FormatDurations (enabled_LatencyMetric host)]),
      (ConsensusGroup,
       [consensus_PeerMetric_service FormatCounts (enabled_consensus_PeerMetric beacon)])]
     empty_report = Inl IndexOutOfRange \<and>
   Start_report
     [(ExecutionGroup,
       [execution_PeerMetric_service FormatCounts visit (enabled_execution_PeerMetric address)]),
      (ConsensusGroup,
       [consensus_PeerMetric_service FormatCounts (enabled_consensus_PeerMetric beacon)])]
     empty_report
   = Inr \<lparr>added =
            [\<lparr>GroupName = ExecutionGroup, MetricName = ''Peers'',
              Value = FormatCounts 0 0 0 0 0, Health = Healthy, RecordSeverity = Map.empty\<rparr>,
             \<lparr>GroupName = ConsensusGroup, MetricName = ''Peers'',
              Value = FormatCounts 0 0 0 0 0, Health = Healthy, RecordSeverity = Map.empty\<rparr>],
          renders = 1\<rparr>"
  by (simp add: Start_report_def empty_report_def AddRecord_def Render_def
      execution_LatencyMetric_service_def execution_PeerMetric_service_def
      consensus_PeerMetric_service_def execution_LatencyMetric_AggregateResults_def
      execution_PeerMetric_AggregateResults_def consensus_PeerMetric_AggregateResults_def
      enabled_LatencyMetric_def NewLatencyMetric_def enabled_execution_PeerMetric_def
      execution_NewPeerMetric_def enabled_consensus_PeerMetric_def consensus_NewPeerMetric_def
      first_visited_empty at_key_CalculatePercentiles percentile_def
      EvaluateMetric_def Evaluate_def execution_peers_conditions_def condition_matches_def
      Let_def)

text \<open>
  Claim C8 fails on the code (the same defect). The execution latency collector, as
  \<^verbatim>\<open>LoadEnabledMetrics\<close> constructs it, run for three ticks against a node that refuses
  every connection, returns from \<^verbatim>\<open>Measure\<close> with an empty store; calling its
  \<^verbatim>\<open>AggregateResults\<close> twice then yields no string: the first call panics with an index
  out of range. On the same store, two calls of the consensus latency collector's
  \<^verbatim>\<open>AggregateResults\<close> yield the same string, the rendering of the zero values.
\<close>

theorem AggregateResults_twice_panics:
  "(\<exists>w. execution_LatencyMetric_Measure [3000000000, 3000000000, 3000000000]
          (fresh_world [] refused) (enabled_LatencyMetric host)
        = Inr (w, enabled_LatencyMetric host)) \<and>
   called_twice (execution_LatencyMetric_AggregateResults FormatPercentiles)
     (enabled_LatencyMetric host) = Inl IndexOutOfRange \<and>
   called_twice (\<lambda>l. Inr (consensus_LatencyMetric_AggregateResults FormatPercentiles l))
     (enabled_LatencyMetric host)
   = Inr (FormatPercentiles 0 0 0 0 0, FormatPercentiles 0 0 0 0 0)"
proof (intro conjI)
  show "\<exists>w. execution_LatencyMetric_Measure [3000000000, 3000000000, 3000000000]
          (fresh_world [] refused) (enabled_LatencyMetric host)
        = Inr (w, enabled_LatencyMetric host)"
    by (simp add: latency_run_defs)
qed (simp_all add: called_twice_def enabled_LatencyMetric_def NewLatencyMetric_def
    execution_LatencyMetric_AggregateResults_def consensus_LatencyMetric_AggregateResults_def)

end
